theory Spec2Isabelle
  imports Complex_Main "HOL-Library.Sublist"
begin

section \<open>GeoPlot: from a state trajectory to GeoJSON and a Cesium viewer page\<close>

text \<open>
  A shallow embedding of \<^verbatim>\<open>geoplot.py\<close>: the class \<^verbatim>\<open>GeoPlot\<close> with its constructor
  and its method \<^verbatim>\<open>render\<close>, the helper \<^verbatim>\<open>read_var\<close> and the module constant
  \<^verbatim>\<open>geoplot_template\<close>. Everything \<^verbatim>\<open>render\<close> does beyond computing values is explicit:
  an exception is a value of type \<open>error\<close>, the two files it writes are entries of a
  file store that the function takes and returns, and the wall clock it reads
  (\<^verbatim>\<open>pd.Timestamp.utcnow()\<close>) is an argument.
\<close>

subsection \<open>Exceptions\<close>

text \<open>
  The exceptions of the Python code that the model distinguishes. \<open>PathNotFound\<close> is the
  failure of the path resolver. \<open>OutOfBoundsTimedelta\<close> and \<open>OutOfBoundsDatetime\<close> are the
  exceptions of pandas for a duration and for a point in time that do not fit its 64-bit
  representation. \<open>Unsupported\<close> marks an input outside the data model of the
  specification (a configured path that ends at an inner mapping and not at an array),
  where the model stops instead of following numpy's object arrays.
\<close>

datatype error =
    KeyError string
  | IndexError
  | TypeError
  | ValueError
  | PathNotFound
  | OutOfBoundsTimedelta
  | OutOfBoundsDatetime
  | Unsupported

subsection \<open>Arrays and simulation states\<close>

text \<open>
  The leaves of a simulation state are n-dimensional arrays of numbers. \<open>'a\<close> is the
  type of the numbers; the code moves them around and never computes with them. A
  value of \<open>'a tensor\<close> is what \<^verbatim>\<open>np.array(x).tolist()\<close> returns: a number for a
  0-dimensional array, a list of rows otherwise. Arrays are rectangular.
\<close>

datatype 'a tensor = Scalar 'a | Array "'a tensor list"

text \<open>\<^verbatim>\<open>np.array(x).flatten().tolist()\<close>: the numbers of the array in row-major order.\<close>

fun flatten_tolist :: "'a tensor \<Rightarrow> 'a list" where
  "flatten_tolist (Scalar x) = [x]"
| "flatten_tolist (Array ts) = concat (map flatten_tolist ts)"

text \<open>
  A snapshot is a nested mapping keyed by path segments, with arrays at the leaves.
  A mapping is an association list read by \<open>map_of\<close> (the first entry of a key counts).
\<close>

datatype 'a state = Tensor "'a tensor" | Dict "(string \<times> 'a state) list"

type_synonym 'a trajectory = "'a state list list"

text \<open>
  Modelled from the spec: \<^verbatim>\<open>get_by_path\<close> of \<^verbatim>\<open>agent_torch.core.helpers\<close> is imported by
  the module and its source is not part of it. Section 4.1 of the specification: the
  state is traversed segment by segment, each segment a mapping key; the value at the
  final segment is returned; the traversal fails when a segment is absent or when it
  reaches a leaf before the path is exhausted.
\<close>

fun get_by_path :: "'a state \<Rightarrow> string list \<Rightarrow> error + 'a state" where
  "get_by_path node [] = Inr node"
| "get_by_path node (item # items) =
     (case node of
        Tensor t \<Rightarrow> Inl PathNotFound
      | Dict kvs \<Rightarrow>
          (case map_of kvs item of
             None \<Rightarrow> Inl PathNotFound
           | Some child \<Rightarrow> get_by_path child items))"

text \<open>\<^verbatim>\<open>re.split("/", var)\<close>: the pieces of \<open>var\<close> between the occurrences of \<open>sep\<close>.\<close>

fun re_split :: "char \<Rightarrow> string \<Rightarrow> string list" where
  "re_split sep [] = [[]]"
| "re_split sep (c # cs) =
     (if c = sep then [] # re_split sep cs
      else (case re_split sep cs of
              [] \<Rightarrow> [[c]]
            | piece # pieces \<Rightarrow> (c # piece) # pieces))"

definition read_var :: "'a state \<Rightarrow> string \<Rightarrow> error + 'a state" where
  "read_var state var = get_by_path state (re_split (CHR ''/'') var)"

text \<open>\<^verbatim>\<open>np.array(x).tolist()\<close> and \<^verbatim>\<open>np.array(x).flatten().tolist()\<close> of a resolved value.\<close>

definition np_array_tolist :: "'a state \<Rightarrow> error + 'a tensor" where
  "np_array_tolist x = (case x of Tensor t \<Rightarrow> Inr t | Dict kvs \<Rightarrow> Inl Unsupported)"

definition np_array_flatten_tolist :: "'a state \<Rightarrow> error + 'a list" where
  "np_array_flatten_tolist x =
     (case x of Tensor t \<Rightarrow> Inr (flatten_tolist t) | Dict kvs \<Rightarrow> Inl Unsupported)"

subsection \<open>Configuration, options and the GeoPlot object\<close>

text \<open>
  The configuration is a mapping with the entry \<^verbatim>\<open>simulation_metadata\<close>, itself a mapping
  with the entries \<^verbatim>\<open>name\<close>, \<^verbatim>\<open>num_episodes\<close> and \<^verbatim>\<open>num_steps_per_episode\<close>. Each entry
  is a field that is \<open>None\<close> when the key is absent, so that a subscript of an absent
  key is the \<^verbatim>\<open>KeyError\<close> that Python raises. The options mapping has the five keys
  \<^verbatim>\<open>cesium_token\<close>, \<^verbatim>\<open>step_time\<close>, \<^verbatim>\<open>coordinates\<close>, \<^verbatim>\<open>feature\<close> and \<^verbatim>\<open>visualization_type\<close>.
  Numbers of the configuration are Python integers; \<^verbatim>\<open>step_time\<close> is a whole number of
  seconds.
\<close>

record metadata =
  name :: "string option"
  num_episodes :: "int option"
  num_steps_per_episode :: "int option"

record config =
  simulation_metadata :: "metadata option"

record options =
  opt_cesium_token :: "string option"
  opt_step_time :: "int option"
  opt_coordinates :: "string option"
  opt_feature :: "string option"
  opt_visualization_type :: "string option"

record geoplot =
  config :: config
  cesium_token :: string
  step_time :: int
  entity_position :: string
  entity_property :: string
  visualization_type :: string

text \<open>\<open>d[key]\<close> on a mapping entry: the value, or \<^verbatim>\<open>KeyError(key)\<close>.\<close>

definition subscript :: "'v option \<Rightarrow> string \<Rightarrow> error + 'v" where
  "subscript entry key = (case entry of None \<Rightarrow> Inl (KeyError key) | Some v \<Rightarrow> Inr v)"

text \<open>
  \<^verbatim>\<open>GeoPlot.__init__\<close>: the five subscripts of the right-hand tuple are evaluated from
  left to right, so the first absent key is the one reported.
\<close>

definition GeoPlot_init :: "config \<Rightarrow> options \<Rightarrow> error + geoplot" where
  "GeoPlot_init cfg opts =
     (case subscript (opt_cesium_token opts) ''cesium_token'' of Inl e \<Rightarrow> Inl e | Inr tok \<Rightarrow>
     (case subscript (opt_step_time opts) ''step_time'' of Inl e \<Rightarrow> Inl e | Inr st \<Rightarrow>
     (case subscript (opt_coordinates opts) ''coordinates'' of Inl e \<Rightarrow> Inl e | Inr pos \<Rightarrow>
     (case subscript (opt_feature opts) ''feature'' of Inl e \<Rightarrow> Inl e | Inr prop \<Rightarrow>
     (case subscript (opt_visualization_type opts) ''visualization_type'' of
        Inl e \<Rightarrow> Inl e
      | Inr vt \<Rightarrow>
          Inr \<lparr>config = cfg, cesium_token = tok, step_time = st, entity_position = pos,
               entity_property = prop, visualization_type = vt\<rparr>)))))"

text \<open>\<^verbatim>\<open>self.config["simulation_metadata"][key]\<close>.\<close>

definition metadata_entry :: "config \<Rightarrow> (metadata \<Rightarrow> 'v option) \<Rightarrow> string \<Rightarrow> error + 'v" where
  "metadata_entry cfg field key =
     (case subscript (simulation_metadata cfg) ''simulation_metadata'' of
        Inl e \<Rightarrow> Inl e
      | Inr md \<Rightarrow> subscript (field md) key)"

subsection \<open>Timestamps\<close>

text \<open>
  pandas keeps a \<^verbatim>\<open>Timestamp\<close> and a \<^verbatim>\<open>Timedelta\<close> as a signed 64-bit count of
  nanoseconds, a timestamp counted from 1970-01-01T00:00:00 UTC. A count is in bounds
  when it lies strictly between \<open>-2^63\<close> and \<open>2^63\<close> (the value \<open>-2^63\<close> is pandas' marker
  for a missing time). The model keeps the counts as integers and writes the bound out:
  \<open>Timedelta s\<close> is \<^verbatim>\<open>pd.Timedelta(seconds=s)\<close> for a whole number \<open>s\<close> of seconds, and
  \<open>timestamp_add t d\<close> is \<^verbatim>\<open>t + d\<close>; each raises when its result is out of bounds. A
  \<^verbatim>\<open>step_time\<close> that is a floating-point number is outside the model.
\<close>

type_synonym timestamp = int

definition in_bounds :: "int \<Rightarrow> bool" where
  "in_bounds ns \<longleftrightarrow> - (2 ^ 63) < ns \<and> ns < 2 ^ 63"

definition Timedelta :: "int \<Rightarrow> error + int" where
  "Timedelta seconds =
     (if in_bounds (seconds * 1000000000) then Inr (seconds * 1000000000)
      else Inl OutOfBoundsTimedelta)"

definition timestamp_add :: "timestamp \<Rightarrow> int \<Rightarrow> error + timestamp" where
  "timestamp_add t delta =
     (if in_bounds (t + delta) then Inr (t + delta) else Inl OutOfBoundsDatetime)"

text \<open>\<^verbatim>\<open>range(n)\<close>: empty when \<open>n\<close> is zero or negative.\<close>

definition py_range :: "int \<Rightarrow> nat list" where
  "py_range n = [0..<nat n]"

text \<open>Decimal digits of a number, as \<^verbatim>\<open>str\<close> and the format \<^verbatim>\<open>%0wd\<close> print them.\<close>

fun str_nat :: "nat \<Rightarrow> string" where
  "str_nat n =
     (if n < 10 then [''0123456789'' ! n]
      else str_nat (n div 10) @ [''0123456789'' ! (n mod 10)])"

declare str_nat.simps [simp del]

definition str_int :: "int \<Rightarrow> string" where
  "str_int i = (if i < 0 then CHR ''-'' # str_nat (nat (- i)) else str_nat (nat i))"

definition zero_pad :: "nat \<Rightarrow> int \<Rightarrow> string" where
  "zero_pad width i =
     (if i < 0 then CHR ''-'' # replicate (width - 1 - length (str_nat (nat (- i)))) (CHR ''0'')
                      @ str_nat (nat (- i))
      else replicate (width - length (str_nat (nat i))) (CHR ''0'') @ str_nat (nat i))"

text \<open>
  The proleptic Gregorian date (year, month, day) of a day number counted from
  1970-01-01, by the usual era arithmetic on 400-year cycles that start on 1 March.
\<close>

definition civil_from_days :: "int \<Rightarrow> int \<times> int \<times> int" where
  "civil_from_days days =
     (let z = days + 719468;
          era = z div 146097;
          doe = z - era * 146097;
          yoe = (doe - doe div 1460 + doe div 36524 - doe div 146096) div 365;
          doy = doe - (365 * yoe + yoe div 4 - yoe div 100);
          mp = (5 * doy + 2) div 153;
          d = doy - (153 * mp + 2) div 5 + 1;
          m = (if mp < 10 then mp + 3 else mp - 9);
          y = yoe + era * 400 + (if m \<le> 2 then 1 else 0)
      in (y, m, d))"

text \<open>
  \<^verbatim>\<open>Timestamp.isoformat()\<close> of a timestamp in UTC:
  \<^verbatim>\<open>YYYY-MM-DDTHH:MM:SS+00:00\<close>, with the six digits of the microseconds after the
  seconds when the fraction of the second is not zero, and the three digits of the
  nanoseconds after them when these are not zero.
\<close>

definition isoformat :: "timestamp \<Rightarrow> string" where
  "isoformat t =
     (let days = t div 86400000000000;
          rest = t mod 86400000000000;
          secs = rest div 1000000000;
          micro = rest mod 1000000000 div 1000;
          nano = rest mod 1000;
          ymd = civil_from_days days
      in zero_pad 4 (fst ymd) @ ''-'' @ zero_pad 2 (fst (snd ymd)) @ ''-''
         @ zero_pad 2 (snd (snd ymd)) @ ''T''
         @ zero_pad 2 (secs div 3600) @ '':'' @ zero_pad 2 (secs mod 3600 div 60) @ '':''
         @ zero_pad 2 (secs mod 60)
         @ (if nano = 0 then (if micro = 0 then [] else ''.'' @ zero_pad 6 micro)
            else ''.'' @ zero_pad 6 micro @ zero_pad 3 nano)
         @ ''+00:00'')"

subsection \<open>JSON values and their serialisation\<close>

text \<open>
  The dictionaries and lists that \<^verbatim>\<open>render\<close> builds and hands to \<^verbatim>\<open>json.dump\<close>. An
  object keeps its keys in insertion order.
\<close>

datatype 'a json =
    JStr string
  | JNum 'a
  | JArr "'a json list"
  | JObj "(string \<times> 'a json) list"

fun json_of_tensor :: "'a tensor \<Rightarrow> 'a json" where
  "json_of_tensor (Scalar x) = JNum x"
| "json_of_tensor (Array ts) = JArr (map json_of_tensor ts)"

text \<open>\<open>sep.join(pieces)\<close>.\<close>

fun join :: "string \<Rightarrow> string list \<Rightarrow> string" where
  "join sep [] = []"
| "join sep [p] = p"
| "join sep (p # q # ps) = p @ sep @ join sep (q # ps)"

text \<open>
  A JSON string literal. The strings that \<^verbatim>\<open>render\<close> serialises are the keys and tags
  it writes itself and timestamps in ISO format, all of them printable ASCII, on which
  \<^verbatim>\<open>ensure_ascii\<close> makes no difference; the quote and the backslash are escaped.
\<close>

definition json_string :: "string \<Rightarrow> string" where
  "json_string s =
     [CHR 0x22]
     @ concat (map (\<lambda>c. if c = CHR 0x22 then [CHR 0x5C, CHR 0x22]
                         else if c = CHR 0x5C then [CHR 0x5C, CHR 0x5C] else [c]) s)
     @ [CHR 0x22]"

text \<open>
  \<^verbatim>\<open>json.dumps(obj)\<close>: one line, items separated by a comma and a space. \<open>fmt\<close> prints a
  number (\<^verbatim>\<open>int.__repr__\<close> or \<^verbatim>\<open>float.__repr__\<close>).
\<close>

fun json_dumps :: "('a \<Rightarrow> string) \<Rightarrow> 'a json \<Rightarrow> string" where
  "json_dumps fmt (JStr s) = json_string s"
| "json_dumps fmt (JNum x) = fmt x"
| "json_dumps fmt (JArr xs) = ''['' @ join '', '' (map (json_dumps fmt) xs) @ '']''"
| "json_dumps fmt (JObj kvs) =
     ''{'' @ join '', '' (map (\<lambda>kv. json_string (fst kv) @ '': '' @ json_dumps fmt (snd kv)) kvs)
     @ ''}''"

text \<open>
  \<^verbatim>\<open>json.dump(obj, f, ensure_ascii=False, indent=2)\<close>: every item of a non-empty list or
  object on a line of its own, indented by two spaces per level; \<open>level\<close> is the depth
  of the value being printed.
\<close>

definition newline_indent :: "nat \<Rightarrow> string" where
  "newline_indent level = CHR 0x0A # replicate (2 * level) (CHR '' '')"

fun json_dump_indent :: "('a \<Rightarrow> string) \<Rightarrow> nat \<Rightarrow> 'a json \<Rightarrow> string" where
  "json_dump_indent fmt level (JStr s) = json_string s"
| "json_dump_indent fmt level (JNum x) = fmt x"
| "json_dump_indent fmt level (JArr xs) =
     (if xs = [] then ''[]''
      else ''['' @ newline_indent (Suc level)
           @ join ('','' @ newline_indent (Suc level)) (map (json_dump_indent fmt (Suc level)) xs)
           @ newline_indent level @ '']'')"
| "json_dump_indent fmt level (JObj kvs) =
     (if kvs = [] then ''{}''
      else ''{'' @ newline_indent (Suc level)
           @ join ('','' @ newline_indent (Suc level))
               (map (\<lambda>kv. json_string (fst kv) @ '': '' @ json_dump_indent fmt (Suc level) (snd kv))
                  kvs)
           @ newline_indent level @ ''}'')"

subsection \<open>The viewer template\<close>

text \<open>
  \<^verbatim>\<open>geoplot_template\<close>, line by line: each row is the number of tab characters that
  start the line and the rest of the line. The Python literal starts with a line
  break (the first row is empty) and every line ends with one.
\<close>

definition geoplot_template_rows :: \<open>(nat \<times> string) list\<close> where
  \<open>geoplot_template_rows = [
    (0, ''''),
    (0, ''<!doctype html>''),
    (0, ''<html lang="en">''),
    (1, ''<head>''),
    (2, ''<!-- Cesium JS dependencies and basic styling -->''),
    (2, ''<meta charset="UTF-8" />''),
    (2, ''<meta name="viewport" content="width=device-width, initial-scale=1.0" />''),
    (2, ''<title>Cesium Time-Series Heatmap Visualization</title>''),
    (2, ''<script src="https://cesium.com/downloads/cesiumjs/releases/1.95/Build/Cesium/Cesium.js"></script>''),
    (2, ''<link href="https://cesium.com/downloads/cesiumjs/releases/1.95/Build/Cesium/Widgets/widgets.css" rel="stylesheet" />''),
    (2, ''<style>''),
    (3, ''#cesiumContainer {''),
    (4, ''width: 100%;''),
    (4, ''height: 100%;''),
    (3, ''}''),
    (2, ''</style>''),
    (1, ''</head>''),
    (1, ''<body>''),
    (2, ''<div id="cesiumContainer"></div>''),
    (2, ''<script>''),
    (3, ''// Cesium initialization and configuration''),
    (3, ''Cesium.Ion.defaultAccessToken = '$accessToken'' @ [CHR 0x27]),
    (3, ''const viewer = new Cesium.Viewer('cesiumContainer')''),
    (0, ''''),
    (3, ''// Color interpolation for value visualization''),
    (3, ''function interpolateColor(color1, color2, factor) {''),
    (4, ''const result = new Cesium.Color()''),
    (4, ''result.red = color1.red + factor * (color2.red - color1.red)''),
    (4, ''result.green = color1.green + factor * (color2.green - color1.green)''),
    (4, ''result.blue = color1.blue + factor * (color2.blue - color1.blue)''),
    (4, ''result.alpha = '$visualType' == 'size' ? 0.2 : ''),
    (5, ''color1.alpha + factor * (color2.alpha - color1.alpha)''),
    (4, ''return result''),
    (3, ''}''),
    (0, ''''),
    (3, ''// Value-to-color mapping with normalization''),
    (3, ''function getColor(value, min, max) {''),
    (4, ''const factor = (value - min) / (max - min)''),
    (4, ''return interpolateColor(Cesium.Color.BLUE, Cesium.Color.RED, factor)''),
    (3, ''}''),
    (0, ''''),
    (3, ''// Size scaling for size-based visualization''),
    (3, ''function getPixelSize(value, min, max) {''),
    (4, ''const factor = (value - min) / (max - min)''),
    (4, ''return 100 * (1 + factor)''),
    (3, ''}''),
    (0, ''''),
    (3, ''// Process GeoJSON data into time-series format''),
    (3, ''function processTimeSeriesData(geoJsonData) {''),
    (4, ''const timeSeriesMap = new Map()''),
    (4, ''let minValue = Infinity''),
    (4, ''let maxValue = -Infinity''),
    (0, ''''),
    (4, ''geoJsonData.features.forEach((feature) => {''),
    (5, ''const id = feature.properties.id''),
    (5, ''const time = Cesium.JulianDate.fromIso8601(feature.properties.time)''),
    (5, ''const value = feature.properties.value''),
    (5, ''const coordinates = feature.geometry.coordinates''),
    (0, ''''),
    (5, ''if (!timeSeriesMap.has(id)) timeSeriesMap.set(id, [])''),
    (5, ''timeSeriesMap.get(id).push({ time, value, coordinates })''),
    (0, ''''),
    (5, ''minValue = Math.min(minValue, value)''),
    (5, ''maxValue = Math.max(maxValue, value)''),
    (4, ''})''),
    (0, ''''),
    (4, ''return { timeSeriesMap, minValue, maxValue }''),
    (3, ''}''),
    (0, ''''),
    (3, ''// Create Cesium entities for visualization''),
    (3, ''function createTimeSeriesEntities(timeSeriesData, startTime, stopTime) {''),
    (4, ''const dataSource = new Cesium.CustomDataSource('AgentTorch Simulation')''),
    (0, ''''),
    (4, ''for (const [id, timeSeries] of timeSeriesData.timeSeriesMap) {''),
    (5, ''const entity = new Cesium.Entity({''),
    (6, ''id: id,''),
    (6, ''availability: new Cesium.TimeIntervalCollection([''),
    (7, ''new Cesium.TimeInterval({ start: startTime, stop: stopTime }),''),
    (6, '']),''),
    (6, ''position: new Cesium.SampledPositionProperty(),''),
    (6, ''point: {''),
    (7, ''pixelSize: '$visualType' == 'size' ? new Cesium.SampledProperty(Number) : 10,''),
    (7, ''color: new Cesium.SampledProperty(Cesium.Color),''),
    (6, ''},''),
    (6, ''properties: { value: new Cesium.SampledProperty(Number) },''),
    (5, ''})''),
    (0, ''''),
    (5, ''timeSeries.forEach(({ time, value, coordinates }) => {''),
    (6, ''const position = Cesium.Cartesian3.fromDegrees(coordinates[0], coordinates[1])''),
    (6, ''entity.position.addSample(time, position)''),
    (6, ''entity.properties.value.addSample(time, value)''),
    (6, ''entity.point.color.addSample(time, getColor(value, timeSeriesData.minValue, timeSeriesData.maxValue))''),
    (0, ''''),
    (6, ''if ('$visualType' == 'size') {''),
    (7, ''entity.point.pixelSize.addSample(time, ''),
    (8, ''getPixelSize(value, timeSeriesData.minValue, timeSeriesData.maxValue))''),
    (6, ''}''),
    (5, ''})''),
    (5, ''dataSource.entities.add(entity)''),
    (4, ''}''),
    (4, ''return dataSource''),
    (3, ''}''),
    (0, ''''),
    (3, ''// Initialize timeline and load data''),
    (3, ''const start = Cesium.JulianDate.fromIso8601('$startTime')''),
    (3, ''const stop = Cesium.JulianDate.fromIso8601('$stopTime')''),
    (3, ''viewer.clock.startTime = start.clone()''),
    (3, ''viewer.clock.stopTime = stop.clone()''),
    (3, ''viewer.clock.currentTime = start.clone()''),
    (3, ''viewer.clock.clockRange = Cesium.ClockRange.LOOP_STOP''),
    (3, ''viewer.clock.multiplier = 3600 // 1 hour per second''),
    (3, ''viewer.timeline.zoomTo(start, stop)''),
    (0, ''''),
    (3, ''// Load all GeoJSON datasets''),
    (3, ''for (const geoJsonData of geoJsons) {''),
    (4, ''const timeSeriesData = processTimeSeriesData(geoJsonData)''),
    (4, ''const dataSource = createTimeSeriesEntities(timeSeriesData, start, stop)''),
    (4, ''viewer.dataSources.add(dataSource)''),
    (4, ''viewer.zoomTo(dataSource)''),
    (3, ''}''),
    (2, ''</script>''),
    (1, ''</body>''),
    (0, ''</html>'')
  ]\<close>

definition template_line :: "nat \<times> string \<Rightarrow> string" where
  "template_line row = replicate (fst row) (CHR 0x09) @ snd row @ [CHR 0x0A]"

definition geoplot_template :: string where
  "geoplot_template = concat (map template_line geoplot_template_rows)"

subsection \<open>\<^verbatim>\<open>string.Template\<close>\<close>

text \<open>
  \<^verbatim>\<open>Template(t).substitute(mapping)\<close> scans \<open>t\<close> from left to right for the delimiter
  \<^verbatim>\<open>$\<close>. After it, \<^verbatim>\<open>$\<close> is an escaped delimiter, an identifier (an ASCII letter or
  underscore, then ASCII letters, digits and underscores, as many as there are) is a
  placeholder, and so is an identifier in braces; anything else is an invalid
  placeholder. A placeholder is replaced by the value of its name in the mapping
  (\<^verbatim>\<open>KeyError\<close> when the name is absent), an escaped delimiter by one \<^verbatim>\<open>$\<close>, and an
  invalid placeholder raises \<^verbatim>\<open>ValueError\<close>. Keys of the mapping that the template
  does not name are ignored. The text that a placeholder is replaced by is not
  scanned again.
\<close>

datatype token = Lit char | Escaped | Named string | Invalid

definition is_id_start :: "char \<Rightarrow> bool" where
  "is_id_start c \<longleftrightarrow> c \<in> set ''_abcdefghijklmnopqrstuvwxyzABCDEFGHIJKLMNOPQRSTUVWXYZ''"

definition is_id_char :: "char \<Rightarrow> bool" where
  "is_id_char c \<longleftrightarrow> is_id_start c \<or> c \<in> set ''0123456789''"

text \<open>What follows \<^verbatim>\<open>${\<close> is an identifier and a closing brace.\<close>

definition braced :: "string \<Rightarrow> bool" where
  "braced ds \<longleftrightarrow>
     ds \<noteq> [] \<and> is_id_start (hd ds) \<and> take 1 (dropWhile is_id_char ds) = ''}''"

function tokenize :: "string \<Rightarrow> token list" where
  "tokenize [] = []"
| "tokenize (c # cs) =
     (if c \<noteq> CHR ''$'' then Lit c # tokenize cs
      else (case cs of
              [] \<Rightarrow> [Invalid]
            | d # ds \<Rightarrow>
                if d = CHR ''$'' then Escaped # tokenize ds
                else if is_id_start d then
                  Named (d # takeWhile is_id_char ds) # tokenize (dropWhile is_id_char ds)
                else if d = CHR ''{'' \<and> braced ds then
                  Named (takeWhile is_id_char ds) # tokenize (drop 1 (dropWhile is_id_char ds))
                else Invalid # tokenize cs))"
  by pat_completeness auto
termination
proof (relation "measure length")
  show "wf (measure length)" by simp
next
  fix c :: char and cs :: string
  show "(cs, c # cs) \<in> measure length" by simp
next
  fix c d :: char and cs ds :: string
  assume "cs = d # ds"
  then show "(ds, c # cs) \<in> measure length" by simp
next
  fix c d :: char and cs ds :: string
  assume "cs = d # ds"
  then show "(dropWhile is_id_char ds, c # cs) \<in> measure length"
    using length_dropWhile_le [of is_id_char ds] by simp
next
  fix c d :: char and cs ds :: string
  assume "cs = d # ds"
  then show "(drop 1 (dropWhile is_id_char ds), c # cs) \<in> measure length"
    using length_dropWhile_le [of is_id_char ds] by simp
next
  fix c :: char and cs :: string
  show "(cs, c # cs) \<in> measure length" by simp
qed

fun convert :: "(string \<rightharpoonup> string) \<Rightarrow> token \<Rightarrow> error + string" where
  "convert mapping (Lit c) = Inr [c]"
| "convert mapping Escaped = Inr ''$''"
| "convert mapping (Named n) = subscript (mapping n) n"
| "convert mapping Invalid = Inl ValueError"

fun substitute_tokens :: "(string \<rightharpoonup> string) \<Rightarrow> token list \<Rightarrow> error + string" where
  "substitute_tokens mapping [] = Inr []"
| "substitute_tokens mapping (t # ts) =
     (case convert mapping t of
        Inl e \<Rightarrow> Inl e
      | Inr piece \<Rightarrow>
          (case substitute_tokens mapping ts of
             Inl e \<Rightarrow> Inl e
           | Inr rest \<Rightarrow> Inr (piece @ rest)))"

definition substitute :: "(string \<rightharpoonup> string) \<Rightarrow> string \<Rightarrow> error + string" where
  "substitute mapping template = substitute_tokens mapping (tokenize template)"

text \<open>
  The names of the placeholders of a scanned template, in the order of their
  occurrences, and whether the scan found nothing but text and placeholders (no
  escaped delimiter and no invalid placeholder).
\<close>

definition placeholders :: "token list \<Rightarrow> string list" where
  "placeholders ts = concat (map (\<lambda>t. case t of Named n \<Rightarrow> [n] | _ \<Rightarrow> []) ts)"

definition plain :: "token list \<Rightarrow> bool" where
  "plain ts \<longleftrightarrow> list_all (\<lambda>t. case t of Lit c \<Rightarrow> True | Named n \<Rightarrow> True | _ \<Rightarrow> False) ts"

text \<open>
  In a sealed token list every placeholder is followed by a character of text that
  cannot continue an identifier, or by nothing; a closed one ends in text. The four
  placeholders of the viewer template, as they are written in it.
\<close>

fun sealed :: "token list \<Rightarrow> bool" where
  "sealed [] \<longleftrightarrow> True"
| "sealed (Named n # ts) \<longleftrightarrow>
     (case ts of [] \<Rightarrow> True | Lit c # rest \<Rightarrow> \<not> is_id_char c | _ \<Rightarrow> False) \<and> sealed ts"
| "sealed (t # ts) \<longleftrightarrow> sealed ts"

definition closed :: "token list \<Rightarrow> bool" where
  "closed ts \<longleftrightarrow> ts \<noteq> [] \<and> (case last ts of Lit c \<Rightarrow> True | _ \<Rightarrow> False)"

definition placeholder_tokens :: "string list" where
  "placeholder_tokens = [''$accessToken'', ''$startTime'', ''$stopTime'', ''$visualType'']"

subsection \<open>\<^verbatim>\<open>GeoPlot.render\<close>\<close>

text \<open>Subscripts of Python lists: \<open>xs[i]\<close> for \<open>i \<ge> 0\<close>, and \<open>xs[-1]\<close>.\<close>

definition list_item :: "'x list \<Rightarrow> nat \<Rightarrow> error + 'x" where
  "list_item xs i = (if i < length xs then Inr (xs ! i) else Inl IndexError)"

definition last_item :: "'x list \<Rightarrow> error + 'x" where
  "last_item xs = (if xs = [] then Inl IndexError else Inr (last xs))"

text \<open>
  A subscript of a value that came out of \<^verbatim>\<open>tolist()\<close>: a number has no subscript
  (\<^verbatim>\<open>TypeError\<close>).
\<close>

definition tensor_item :: "'a tensor \<Rightarrow> nat \<Rightarrow> error + 'a tensor" where
  "tensor_item t i = (case t of Scalar x \<Rightarrow> Inl TypeError | Array ts \<Rightarrow> list_item ts i)"

text \<open>A list comprehension whose body can raise: the first exception ends it.\<close>

fun comprehension :: "('x \<Rightarrow> error + 'y) \<Rightarrow> 'x list \<Rightarrow> error + 'y list" where
  "comprehension f [] = Inr []"
| "comprehension f (x # xs) =
     (case f x of
        Inl e \<Rightarrow> Inl e
      | Inr y \<Rightarrow> (case comprehension f xs of Inl e \<Rightarrow> Inl e | Inr ys \<Rightarrow> Inr (y # ys)))"

text \<open>
  The three right-hand sides of the body of the first loop of \<^verbatim>\<open>render\<close>:
  \<^verbatim>\<open>state_trajectory[i][-1]\<close>,
  \<^verbatim>\<open>np.array(read_var(final_state, self.entity_position)).tolist()\<close> and
  \<^verbatim>\<open>np.array(read_var(final_state, self.entity_property)).flatten().tolist()\<close>.
\<close>

definition episode_final_state :: "'a trajectory \<Rightarrow> nat \<Rightarrow> error + 'a state" where
  "episode_final_state state_trajectory i =
     (case list_item state_trajectory i of Inl e \<Rightarrow> Inl e | Inr episode \<Rightarrow> last_item episode)"

definition read_coords :: "geoplot \<Rightarrow> 'a state \<Rightarrow> error + 'a tensor" where
  "read_coords self final_state =
     (case read_var final_state (entity_position self) of
        Inl e \<Rightarrow> Inl e
      | Inr pos \<Rightarrow> np_array_tolist pos)"

definition read_values :: "geoplot \<Rightarrow> 'a state \<Rightarrow> error + 'a list" where
  "read_values self final_state =
     (case read_var final_state (entity_property self) of
        Inl e \<Rightarrow> Inl e
      | Inr prop \<Rightarrow> np_array_flatten_tolist prop)"

text \<open>
  The first loop of \<^verbatim>\<open>render\<close>, over the episode indices it is given, with the
  variables \<open>coords\<close> and \<open>values\<close> as the loop state:
  \<^verbatim>\<open>
  for i in range(len(state_trajectory) - 1):
      final_state = state_trajectory[i][-1]
      coords = np.array(read_var(final_state, self.entity_position)).tolist()
      values.append(np.array(read_var(final_state, self.entity_property)).flatten().tolist())
  \<close>
\<close>

fun extract_loop ::
  "geoplot \<Rightarrow> 'a trajectory \<Rightarrow> nat list \<Rightarrow> 'a tensor \<times> 'a list list
     \<Rightarrow> error + 'a tensor \<times> 'a list list" where
  "extract_loop self state_trajectory [] (coords, values) = Inr (coords, values)"
| "extract_loop self state_trajectory (i # rest) (coords, values) =
     (case episode_final_state state_trajectory i of Inl e \<Rightarrow> Inl e | Inr final_state \<Rightarrow>
     (case read_coords self final_state of Inl e \<Rightarrow> Inl e | Inr coords' \<Rightarrow>
     (case read_values self final_state of Inl e \<Rightarrow> Inl e | Inr value_list \<Rightarrow>
        extract_loop self state_trajectory rest (coords', values @ [value_list]))))"

text \<open>The loop as \<^verbatim>\<open>render\<close> runs it, from \<^verbatim>\<open>coords, values = [], []\<close>.\<close>

definition extraction :: "geoplot \<Rightarrow> 'a trajectory \<Rightarrow> error + 'a tensor \<times> 'a list list" where
  "extraction self state_trajectory =
     extract_loop self state_trajectory (py_range (int (length state_trajectory) - 1))
       (Array [], [])"

text \<open>
  The timeline of \<^verbatim>\<open>render\<close>:
  \<^verbatim>\<open>[start_time + pd.Timedelta(seconds=i*self.step_time) for i in range(total_steps)]\<close>.
  The product \<open>i * step_time\<close> is a Python integer and cannot overflow; the duration made
  of it and the sum can.
\<close>

definition gen_timestamps :: "timestamp \<Rightarrow> int \<Rightarrow> int \<Rightarrow> error + timestamp list" where
  "gen_timestamps start_time step total_steps =
     comprehension
       (\<lambda>i. case Timedelta (int i * step) of
               Inl e \<Rightarrow> Inl e
             | Inr delta \<Rightarrow> timestamp_add start_time delta)
       (py_range total_steps)"

text \<open>
  \<^verbatim>\<open>total_steps\<close>: the product of the two configured counts, the left factor looked
  up first.
\<close>

definition total_steps :: "config \<Rightarrow> error + int" where
  "total_steps cfg =
     (case metadata_entry cfg num_episodes ''num_episodes'' of Inl e \<Rightarrow> Inl e | Inr n \<Rightarrow>
     (case metadata_entry cfg num_steps_per_episode ''num_steps_per_episode'' of
        Inl e \<Rightarrow> Inl e
      | Inr k \<Rightarrow> Inr (n * k)))"

definition timeline :: "geoplot \<Rightarrow> timestamp \<Rightarrow> error + timestamp list" where
  "timeline self start_time =
     (case total_steps (config self) of
        Inl e \<Rightarrow> Inl e
      | Inr n \<Rightarrow> gen_timestamps start_time (step_time self) n)"

text \<open>
  One feature: the dictionary display of the inner comprehension, its subscripts
  evaluated in the order in which they are written (\<open>coord[1]\<close>, \<open>coord[0]\<close>,
  \<open>value_list[idx]\<close>).
\<close>

definition feature :: "nat \<Rightarrow> 'a tensor \<Rightarrow> timestamp \<times> 'a list \<Rightarrow> error + 'a json" where
  "feature idx coord tv =
     (case tensor_item coord 1 of Inl e \<Rightarrow> Inl e | Inr lon \<Rightarrow>
     (case tensor_item coord 0 of Inl e \<Rightarrow> Inl e | Inr lat \<Rightarrow>
     (case list_item (snd tv) idx of Inl e \<Rightarrow> Inl e | Inr v \<Rightarrow>
        Inr (JObj
          [(''type'', JStr ''Feature''),
           (''geometry'', JObj
              [(''type'', JStr ''Point''),
               (''coordinates'', JArr [json_of_tensor lon, json_of_tensor lat])]),
           (''properties'', JObj
              [(''value'', JNum v),
               (''time'', JStr (isoformat (fst tv)))])]))))"

definition feature_collection ::
  "timestamp list \<Rightarrow> 'a list list \<Rightarrow> nat \<times> 'a tensor \<Rightarrow> error + 'a json" where
  "feature_collection timestamps values ic =
     (case comprehension (feature (fst ic) (snd ic)) (zip timestamps values) of
        Inl e \<Rightarrow> Inl e
      | Inr features \<Rightarrow>
          Inr (JObj [(''type'', JStr ''FeatureCollection''), (''features'', JArr features)]))"

text \<open>
  The second loop, \<^verbatim>\<open>for idx, coord in enumerate(coords)\<close>: a number cannot be
  iterated (\<^verbatim>\<open>TypeError\<close>).
\<close>

definition to_geojsons ::
  "'a tensor \<Rightarrow> timestamp list \<Rightarrow> 'a list list \<Rightarrow> error + 'a json list" where
  "to_geojsons coords timestamps values =
     (case coords of
        Scalar x \<Rightarrow> Inl TypeError
      | Array cs \<Rightarrow> comprehension (feature_collection timestamps values) (enumerate 0 cs))"

text \<open>
  The dictionary handed to \<^verbatim>\<open>substitute\<close>, its values evaluated in the order in which
  they are written: \<open>timestamps[0]\<close> raises \<^verbatim>\<open>IndexError\<close> on an empty timeline.
\<close>

definition substitutions ::
  "('a \<Rightarrow> string) \<Rightarrow> geoplot \<Rightarrow> timestamp list \<Rightarrow> 'a json list
     \<Rightarrow> error + (string \<rightharpoonup> string)" where
  "substitutions fmt self timestamps geojsons =
     (case list_item timestamps 0 of Inl e \<Rightarrow> Inl e | Inr first \<Rightarrow>
     (case last_item timestamps of Inl e \<Rightarrow> Inl e | Inr final \<Rightarrow>
        Inr (map_of
          [(''accessToken'', cesium_token self),
           (''startTime'', isoformat first),
           (''stopTime'', isoformat final),
           (''data'', json_dumps fmt (JArr geojsons)),
           (''visualType'', visualization_type self)])))"

definition viewer_document ::
  "('a \<Rightarrow> string) \<Rightarrow> geoplot \<Rightarrow> timestamp list \<Rightarrow> 'a json list \<Rightarrow> error + string" where
  "viewer_document fmt self timestamps geojsons =
     (case substitutions fmt self timestamps geojsons of
        Inl e \<Rightarrow> Inl e
      | Inr mapping \<Rightarrow> substitute mapping geoplot_template)"

text \<open>
  The file store maps a path to the text of the file. \<^verbatim>\<open>open(path, "w")\<close> creates or
  empties the file before anything is written to it; input and output errors of the
  operating system are outside the model.

  \<open>render fmt self utcnow state_trajectory files\<close> is a call of \<^verbatim>\<open>render\<close> when the clock
  reads \<open>utcnow\<close> and the files are \<open>files\<close>. It returns the exception that the call
  raises (\<open>None\<close> when it returns normally) and the files after the call. The viewer
  file is opened before the arguments of \<^verbatim>\<open>substitute\<close> are evaluated, so an exception
  raised there leaves an empty viewer file behind.
\<close>

type_synonym files = "string \<rightharpoonup> string"

definition render ::
  "('a \<Rightarrow> string) \<Rightarrow> geoplot \<Rightarrow> timestamp \<Rightarrow> 'a trajectory \<Rightarrow> files
     \<Rightarrow> error option \<times> files" where
  "render fmt self utcnow state_trajectory files =
     (case metadata_entry (config self) name ''name'' of
        Inl e \<Rightarrow> (Some e, files)
      | Inr sim_name \<Rightarrow>
     (let geodata_path = sim_name @ ''.geojson'';
          geoplot_path = sim_name @ ''.html''
      in
     (case extraction self state_trajectory of
        Inl e \<Rightarrow> (Some e, files)
      | Inr (coords, values) \<Rightarrow>
     (case timeline self utcnow of
        Inl e \<Rightarrow> (Some e, files)
      | Inr timestamps \<Rightarrow>
     (case to_geojsons coords timestamps values of
        Inl e \<Rightarrow> (Some e, files)
      | Inr geojsons \<Rightarrow>
     (let files1 = files(geodata_path \<mapsto> json_dump_indent fmt 0 (JArr geojsons))
      in
     (case viewer_document fmt self timestamps geojsons of
        Inl e \<Rightarrow> (Some e, files1(geoplot_path \<mapsto> []))
      | Inr html \<Rightarrow> (None, files1(geoplot_path \<mapsto> html)))))))))"

subsection \<open>Reading the output\<close>

text \<open>
  What a reader of the written GeoJSON finds: the entry of a key in an object, the
  features of a feature collection and the coordinates of the geometry of a feature.
\<close>

definition json_get :: "'a json \<Rightarrow> string \<Rightarrow> 'a json option" where
  "json_get j key = (case j of JObj kvs \<Rightarrow> map_of kvs key | _ \<Rightarrow> None)"

definition features_of :: "'a json \<Rightarrow> 'a json list" where
  "features_of collection =
     (case json_get collection ''features'' of Some (JArr features) \<Rightarrow> features | _ \<Rightarrow> [])"

definition geometry_coordinates :: "'a json \<Rightarrow> 'a json option" where
  "geometry_coordinates f =
     (case json_get f ''geometry'' of None \<Rightarrow> None | Some g \<Rightarrow> json_get g ''coordinates'')"

subsection \<open>Example inputs\<close>

text \<open>
  A configuration of three episodes of two steps, a GeoPlot object with a step of one
  hour, and snapshots that hold the coordinates and the values of the agents under the
  paths \<^verbatim>\<open>agents/coordinates\<close> and \<^verbatim>\<open>agents/value\<close>.
\<close>

definition example_metadata :: metadata where
  "example_metadata = \<lparr>name = Some ''sim'', num_episodes = Some 3, num_steps_per_episode = Some 2\<rparr>"

definition example_config :: config where
  "example_config = \<lparr>simulation_metadata = Some example_metadata\<rparr>"

definition example_self :: geoplot where
  "example_self =
     \<lparr>config = example_config, cesium_token = ''token'', step_time = 3600,
      entity_position = ''agents/coordinates'', entity_property = ''agents/value'',
      visualization_type = ''color''\<rparr>"

definition snapshot :: "'a tensor \<Rightarrow> 'a tensor \<Rightarrow> 'a state" where
  "snapshot coordinates value =
     Dict [(''agents'', Dict [(''coordinates'', Tensor coordinates), (''value'', Tensor value)])]"

text \<open>
  2026-11-04T07:25:00.123456 UTC, in nanoseconds since the epoch; and the example
  object with a step of \<open>10^13\<close> seconds (some 317000 years).
\<close>

definition example_now :: timestamp where
  "example_now = 1793777100123456000"

definition long_step_self :: geoplot where
  "long_step_self = example_self\<lparr>step_time := 10000000000000\<rparr>"

text \<open>
  The example object with an access token that reads like a placeholder; the example
  object whose configuration lacks \<^verbatim>\<open>num_episodes\<close>; and options that lack \<^verbatim>\<open>feature\<close>.
\<close>

definition dollar_token_self :: geoplot where
  "dollar_token_self = example_self\<lparr>cesium_token := ''$accessToken''\<rparr>"

definition no_episodes_self :: geoplot where
  "no_episodes_self =
     example_self\<lparr>config := \<lparr>simulation_metadata = Some (example_metadata\<lparr>num_episodes := None\<rparr>)\<rparr>\<rparr>"

definition partial_options :: options where
  "partial_options =
     \<lparr>opt_cesium_token = Some ''token'', opt_step_time = Some 3600,
      opt_coordinates = Some ''agents/coordinates'', opt_feature = None,
      opt_visualization_type = Some ''color''\<rparr>"

text \<open>
  Two episodes of one snapshot each, with the coordinates \<open>[[1.0, 2.0]]\<close> and
  \<open>[[3.0, 4.0]]\<close>; and three episodes over integers, the second one of two snapshots.
\<close>

definition two_episodes :: "real trajectory" where
  "two_episodes =
     [[snapshot (Array [Array [Scalar 1.0, Scalar 2.0]]) (Array [Scalar 5.0])],
      [snapshot (Array [Array [Scalar 3.0, Scalar 4.0]]) (Array [Scalar 6.0])]]"

definition three_episodes :: "int trajectory" where
  "three_episodes =
     [[snapshot (Array [Array [Scalar 10, Scalar 20]]) (Array [Scalar 7])],
      [snapshot (Array []) (Array []),
       snapshot (Array [Array [Scalar 30, Scalar 40]]) (Array [Scalar 8])],
      [snapshot (Array [Array [Scalar 50, Scalar 60]]) (Array [Scalar 9])]]"

text \<open>
  The timeline of the example object from \<open>example_now\<close>, and the feature collections
  of the three episodes: one agent at \<open>[30, 40]\<close> with the values 7 and 8.
\<close>

definition example_timestamps :: "timestamp list" where
  "example_timestamps =
     [1793777100123456000, 1793780700123456000, 1793784300123456000,
      1793787900123456000, 1793791500123456000, 1793795100123456000]"

definition example_feature :: "int \<Rightarrow> string \<Rightarrow> int json" where
  "example_feature v time =
     JObj
       [(''type'', JStr ''Feature''),
        (''geometry'', JObj [(''type'', JStr ''Point''), (''coordinates'', JArr [JNum 40, JNum 30])]),
        (''properties'', JObj [(''value'', JNum v), (''time'', JStr time)])]"

definition example_geojsons :: "int json list" where
  "example_geojsons =
     [JObj
        [(''type'', JStr ''FeatureCollection''),
         (''features'', JArr
            [example_feature 7 ''2026-11-04T07:25:00.123456+00:00'',
             example_feature 8 ''2026-11-04T08:25:00.123456+00:00''])]]"

section \<open>Properties\<close>

subsection \<open>List comprehensions\<close>

lemma comprehension_Inr:
  "comprehension f xs = Inr ys \<Longrightarrow>
   length ys = length xs \<and> (\<forall>k<length xs. f (xs ! k) = Inr (ys ! k))"
proof (induction xs arbitrary: ys)
  case Nil
  then show ?case by simp
next
  case (Cons x xs)
  from Cons.prems obtain y ys' where y: "f x = Inr y" and ys': "comprehension f xs = Inr ys'"
    and ys: "ys = y # ys'"
    by (auto split: sum.splits)
  from Cons.IH [OF ys'] have len: "length ys' = length xs"
    and nth: "\<forall>k<length xs. f (xs ! k) = Inr (ys' ! k)" by simp_all
  have "\<forall>k<length (x # xs). f ((x # xs) ! k) = Inr (ys ! k)"
  proof (intro allI impI)
    fix k assume "k < length (x # xs)"
    then show "f ((x # xs) ! k) = Inr (ys ! k)"
      using y nth ys by (cases k) auto
  qed
  then show ?case using len ys by simp
qed

lemma comprehension_map:
  "\<forall>x\<in>set xs. f x = Inr (g x) \<Longrightarrow> comprehension f xs = Inr (map g xs)"
  by (induction xs) simp_all

subsection \<open>The timeline\<close>

lemma length_gen_timestamps: "gen_timestamps start step n = Inr ts \<Longrightarrow> length ts = nat n"
  by (auto simp: gen_timestamps_def py_range_def dest: comprehension_Inr)

lemma total_steps_Some:
  "simulation_metadata cfg = Some md \<Longrightarrow> num_episodes md = Some E \<Longrightarrow>
   num_steps_per_episode md = Some S \<Longrightarrow> total_steps cfg = Inr (E * S)"
  by (simp add: total_steps_def metadata_entry_def subscript_def)

subsection \<open>The extraction loop\<close>

lemmas example_defs = example_self_def example_config_def example_metadata_def snapshot_def

lemmas extract_defs = extraction_def py_range_def episode_final_state_def list_item_def
  last_item_def read_coords_def read_values_def read_var_def np_array_tolist_def
  np_array_flatten_tolist_def

lemma set_py_range: "set (py_range n) = {i. int i < n}"
  by (auto simp: py_range_def)

lemma length_py_range: "length (py_range n) = nat n"
  by (simp add: py_range_def)

lemma nth_py_range: "k < nat n \<Longrightarrow> py_range n ! k = k"
  by (simp add: py_range_def)

text \<open>The loop reads the trajectory only through the final states of its indices.\<close>

lemma extract_loop_same:
  "\<forall>i\<in>set idxs. episode_final_state st' i = episode_final_state st i \<Longrightarrow>
   extract_loop self st' idxs acc = extract_loop self st idxs acc"
proof (induction idxs arbitrary: acc)
  case Nil
  then show ?case by (cases acc) simp
next
  case (Cons i idxs)
  then show ?case by (cases acc) (simp split: sum.splits)
qed

text \<open>A completed loop has appended one value list per index, in the order of the indices.\<close>

lemma extract_loop_values:
  "extract_loop self st idxs (c, v) = Inr (c', v') \<Longrightarrow>
   \<exists>ws. v' = v @ ws \<and> length ws = length idxs
     \<and> (\<forall>k<length idxs. \<exists>s. episode_final_state st (idxs ! k) = Inr s
            \<and> read_values self s = Inr (ws ! k))"
proof (induction idxs arbitrary: c v)
  case Nil
  then show ?case by simp
next
  case (Cons i idxs)
  from Cons.prems obtain s c1 w where
    s: "episode_final_state st i = Inr s" and w: "read_values self s = Inr w"
    and rest: "extract_loop self st idxs (c1, v @ [w]) = Inr (c', v')"
    by (auto split: sum.splits)
  from Cons.IH [OF rest] obtain ws where
    ws: "v' = (v @ [w]) @ ws" "length ws = length idxs"
    and nth: "\<forall>k<length idxs. \<exists>s. episode_final_state st (idxs ! k) = Inr s
          \<and> read_values self s = Inr (ws ! k)"
    by blast
  have "\<forall>k<length (i # idxs). \<exists>s. episode_final_state st ((i # idxs) ! k) = Inr s
          \<and> read_values self s = Inr ((w # ws) ! k)"
  proof (intro allI impI)
    fix k assume "k < length (i # idxs)"
    then show "\<exists>s. episode_final_state st ((i # idxs) ! k) = Inr s
          \<and> read_values self s = Inr ((w # ws) ! k)"
      using s w nth by (cases k) auto
  qed
  moreover have "v' = v @ (w # ws)" "length (w # ws) = length (i # idxs)"
    using ws by simp_all
  ultimately show ?case by blast
qed

text \<open>The coordinates after a completed loop are those of the last index.\<close>

lemma extract_loop_coords:
  "extract_loop self st idxs (c, v) = Inr (c', v') \<Longrightarrow> idxs \<noteq> [] \<Longrightarrow>
   \<exists>s. episode_final_state st (last idxs) = Inr s \<and> read_coords self s = Inr c'"
proof (induction idxs arbitrary: c v)
  case Nil
  then show ?case by simp
next
  case (Cons i idxs)
  from Cons.prems(1) obtain s c1 w where
    s: "episode_final_state st i = Inr s" and c1: "read_coords self s = Inr c1"
    and rest: "extract_loop self st idxs (c1, v @ [w]) = Inr (c', v')"
    by (auto split: sum.splits)
  show ?case
  proof (cases "idxs = []")
    case True
    with rest have "c' = c1" by simp
    with True s c1 show ?thesis by simp
  next
    case False
    with Cons.IH [OF rest] show ?thesis by simp
  qed
qed

lemma two_episodes_extraction:
  "extraction example_self two_episodes = Inr (Array [Array [Scalar 1.0, Scalar 2.0]], [[5.0]])"
  by (simp add: extract_defs example_defs two_episodes_def)

lemma three_episodes_extraction:
  "extraction example_self three_episodes
     = Inr (Array [Array [Scalar 30, Scalar 40]], [[7], [8]])"
  by (simp add: extract_defs example_defs three_episodes_def upt_rec)

text \<open>
  Claim C1, as stated: for the trajectory of two episodes whose final snapshots hold
  the coordinates \<open>[[1.0, 2.0]]\<close> and \<open>[[3.0, 4.0]]\<close>, the coordinates that \<^verbatim>\<open>render\<close>
  builds its output from are \<open>[[3.0, 4.0]]\<close>. This fails: the loop runs over
  \<^verbatim>\<open>range(len(state_trajectory) - 1)\<close>, which for two episodes is the index 0 alone, so
  the coordinates are those of episode 0.
\<close>

theorem last_episode_coordinates_counterexample:
  "extraction example_self two_episodes = Inr (Array [Array [Scalar 1.0, Scalar 2.0]], [[5.0]])
   \<and> Array [Array [Scalar 1.0, Scalar 2.0]] \<noteq> (Array [Array [Scalar 3.0, Scalar 4.0]] :: real tensor)"
  by (simp add: two_episodes_extraction)

text \<open>
  Claim C1, amended: when the loop completes on a trajectory of at least two episodes,
  the coordinates that \<^verbatim>\<open>render\<close> builds its output from are those of the final
  snapshot of the last episode that the loop processes, which is the episode before
  the last one (index \<open>len - 2\<close>); they are not an aggregate over the episodes. For the
  two episodes of the claim they are \<open>[[1.0, 2.0]]\<close>.
\<close>

theorem extraction_coordinates:
  assumes "extraction self st = Inr (coords, values)" and "2 \<le> length st"
  shows "\<exists>s. episode_final_state st (length st - 2) = Inr s \<and> read_coords self s = Inr coords"
proof -
  let ?idxs = "py_range (int (length st) - 1)"
  have ne: "?idxs \<noteq> []" using assms(2) by (simp add: py_range_def)
  have "last ?idxs = length st - 2"
    using assms(2) by (simp add: py_range_def nat_diff_distrib' last_upt)
  moreover from assms(1) have "extract_loop self st ?idxs (Array [], []) = Inr (coords, values)"
    by (simp add: extraction_def)
  ultimately show ?thesis using extract_loop_coords [OF _ ne] by metis
qed

theorem extraction_coordinates_witness:
  "extraction example_self two_episodes = Inr (Array [Array [Scalar 1.0, Scalar 2.0]], [[5.0]])
   \<and> 2 \<le> length two_episodes
   \<and> (\<exists>s. episode_final_state two_episodes (length two_episodes - 2) = Inr s
          \<and> read_coords example_self s = Inr (Array [Array [Scalar 1.0, Scalar 2.0]]))"
  using extraction_coordinates [OF two_episodes_extraction]
  by (simp add: two_episodes_extraction) (simp add: two_episodes_def)

text \<open>
  Claim C2. On a trajectory of \<open>n\<close> episodes the loop visits the indices \<open>0\<close> to
  \<open>n - 2\<close>: when it completes, \<open>values\<close> has \<open>n - 1\<close> entries (none for the empty
  trajectory), and entry \<open>i\<close> is the flattened property of the final snapshot of episode
  \<open>i\<close>. The loop consumes nothing else: two trajectories of the same length whose
  episodes \<open>0\<close> to \<open>n - 2\<close> agree on their final snapshots (or on having none) give the
  same result, whatever their other snapshots and their last episodes are.
\<close>

theorem extraction_episodes:
  "(extraction self st = Inr (coords, values) \<longrightarrow>
      length values = length st - 1
      \<and> (\<forall>i<length st - 1. \<exists>s. episode_final_state st i = Inr s
             \<and> read_values self s = Inr (values ! i)))
   \<and> (length st' = length st
        \<and> (\<forall>i. Suc i < length st \<longrightarrow> episode_final_state st' i = episode_final_state st i)
      \<longrightarrow> extraction self st' = extraction self st)"
proof (intro conjI impI)
  assume ok: "extraction self st = Inr (coords, values)"
  let ?idxs = "py_range (int (length st) - 1)"
  from ok have "extract_loop self st ?idxs (Array [], []) = Inr (coords, values)"
    by (simp add: extraction_def)
  from extract_loop_values [OF this] obtain ws where
    ws: "values = [] @ ws" "length ws = length ?idxs"
    and nth: "\<forall>k<length ?idxs. \<exists>s. episode_final_state st (?idxs ! k) = Inr s
            \<and> read_values self s = Inr (ws ! k)"
    by blast
  have len: "length ?idxs = length st - 1"
    by (simp add: length_py_range nat_diff_distrib')
  show "length values = length st - 1" using ws len by simp
  show "\<forall>i<length st - 1. \<exists>s. episode_final_state st i = Inr s
             \<and> read_values self s = Inr (values ! i)"
  proof (intro allI impI)
    fix i assume i: "i < length st - 1"
    then have "?idxs ! i = i" by (intro nth_py_range) linarith
    with nth i len ws show "\<exists>s. episode_final_state st i = Inr s
             \<and> read_values self s = Inr (values ! i)"
      by (metis append_Nil)
  qed
next
  assume a: "length st' = length st
        \<and> (\<forall>i. Suc i < length st \<longrightarrow> episode_final_state st' i = episode_final_state st i)"
  then have "\<forall>i\<in>set (py_range (int (length st) - 1)).
      episode_final_state st' i = episode_final_state st i"
    by (auto simp: set_py_range)
  from extract_loop_same [OF this] a show "extraction self st' = extraction self st"
    by (simp add: extraction_def)
qed

theorem extraction_episodes_witness:
  "extraction example_self three_episodes = Inr (Array [Array [Scalar 30, Scalar 40]], [[7], [8]])
   \<and> length [[7], [8 :: int]] = length three_episodes - 1
   \<and> (\<exists>s. episode_final_state three_episodes 0 = Inr s
          \<and> read_values example_self s = Inr [7])
   \<and> (\<exists>s. episode_final_state three_episodes 1 = Inr s
          \<and> read_values example_self s = Inr [8])
   \<and> extraction example_self (butlast three_episodes @ [[]])
        = extraction example_self three_episodes"
proof -
  let ?st' = "butlast three_episodes @ [[]]"
  have same: "\<forall>i. Suc i < length three_episodes \<longrightarrow>
      episode_final_state ?st' i = episode_final_state three_episodes i"
  proof (intro allI impI)
    fix i assume "Suc i < length three_episodes"
    then have "i = 0 \<or> i = 1" by (auto simp: three_episodes_def)
    then show "episode_final_state ?st' i = episode_final_state three_episodes i"
      by (auto simp: three_episodes_def episode_final_state_def list_item_def)
  qed
  have len: "length ?st' = length three_episodes" by (simp add: three_episodes_def)
  have all: "\<forall>i<length three_episodes - 1. \<exists>s. episode_final_state three_episodes i = Inr s
             \<and> read_values example_self s = Inr ([[7], [8]] ! i)"
    and eq: "extraction example_self ?st' = extraction example_self three_episodes"
    using extraction_episodes [of example_self three_episodes
        "Array [Array [Scalar 30, Scalar 40]]" "[[7], [8]]" ?st']
      three_episodes_extraction same len by blast+
  have l: "length three_episodes - 1 = 2" by (simp add: three_episodes_def)
  have "\<exists>s. episode_final_state three_episodes 0 = Inr s
             \<and> read_values example_self s = Inr [7]"
    using all [rule_format, of 0] l by simp
  moreover have "\<exists>s. episode_final_state three_episodes 1 = Inr s
             \<and> read_values example_self s = Inr [8]"
    using all [rule_format, of 1] l by simp
  ultimately show ?thesis using eq three_episodes_extraction l by simp
qed

subsection \<open>The feature collections\<close>

lemma feature_Inr:
  "feature idx coord tv = Inr f \<Longrightarrow>
   \<exists>lon lat v. tensor_item coord 1 = Inr lon \<and> tensor_item coord 0 = Inr lat
     \<and> list_item (snd tv) idx = Inr v
     \<and> f = JObj
          [(''type'', JStr ''Feature''),
           (''geometry'', JObj
              [(''type'', JStr ''Point''),
               (''coordinates'', JArr [json_of_tensor lon, json_of_tensor lat])]),
           (''properties'', JObj
              [(''value'', JNum v),
               (''time'', JStr (isoformat (fst tv)))])]"
  by (auto simp: feature_def split: sum.splits)

lemma feature_collection_Inr:
  "feature_collection timestamps values (idx, coord) = Inr fc \<Longrightarrow>
   \<exists>features. fc = JObj [(''type'', JStr ''FeatureCollection''), (''features'', JArr features)]
     \<and> length features = min (length timestamps) (length values)
     \<and> (\<forall>k<length features. feature idx coord (timestamps ! k, values ! k) = Inr (features ! k))"
proof -
  assume a: "feature_collection timestamps values (idx, coord) = Inr fc"
  then obtain features where
    c: "comprehension (feature idx coord) (zip timestamps values) = Inr features"
    and fc: "fc = JObj [(''type'', JStr ''FeatureCollection''), (''features'', JArr features)]"
    by (auto simp: feature_collection_def split: sum.splits)
  from comprehension_Inr [OF c] have
    len: "length features = length (zip timestamps values)"
    and nth: "\<forall>k<length (zip timestamps values).
        feature idx coord (zip timestamps values ! k) = Inr (features ! k)"
    by simp_all
  have "\<forall>k<length features. feature idx coord (timestamps ! k, values ! k) = Inr (features ! k)"
    using nth len by simp
  with fc len show ?thesis by simp
qed

lemma to_geojsons_Inr:
  "to_geojsons coords timestamps values = Inr geojsons \<Longrightarrow>
   \<exists>cs. coords = Array cs \<and> length geojsons = length cs
     \<and> (\<forall>idx<length cs.
          feature_collection timestamps values (idx, cs ! idx) = Inr (geojsons ! idx))"
proof -
  assume a: "to_geojsons coords timestamps values = Inr geojsons"
  then obtain cs where cs: "coords = Array cs"
    and c: "comprehension (feature_collection timestamps values) (enumerate 0 cs) = Inr geojsons"
    by (auto simp: to_geojsons_def split: tensor.splits)
  from comprehension_Inr [OF c] have "length geojsons = length cs"
    and "\<forall>idx<length cs.
          feature_collection timestamps values (enumerate 0 cs ! idx) = Inr (geojsons ! idx)"
    by simp_all
  then show ?thesis using cs by (simp add: nth_enumerate_eq)
qed

text \<open>Once the feature collections are built, \<^verbatim>\<open>render\<close> writes them to the GeoJSON file.\<close>

lemma render_writes_geojson:
  assumes "metadata_entry (config self) name ''name'' = Inr sim_name"
    and "extraction self st = Inr (coords, values)"
    and "timeline self now = Inr timestamps"
    and "to_geojsons coords timestamps values = Inr geojsons"
  shows "snd (render fmt self now st files) (sim_name @ ''.geojson'')
           = Some (json_dump_indent fmt 0 (JArr geojsons))"
  using assms by (simp add: render_def Let_def split: sum.splits)

subsection \<open>The example, stage by stage\<close>

lemma example_name: "metadata_entry (config example_self) name ''name'' = Inr ''sim''"
  by (simp add: metadata_entry_def subscript_def example_defs)

lemma example_timeline: "timeline example_self example_now = Inr example_timestamps"
  by (simp add: timeline_def total_steps_def metadata_entry_def subscript_def example_defs
      example_now_def example_timestamps_def gen_timestamps_def py_range_def Timedelta_def
      timestamp_add_def in_bounds_def upt_rec)

lemma example_date: "civil_from_days 20761 = (2026, 11, 4)"
  unfolding civil_from_days_def Let_def by simp

lemma example_isoformat:
  "isoformat 1793777100123456000 = ''2026-11-04T07:25:00.123456+00:00''"
  "isoformat 1793780700123456000 = ''2026-11-04T08:25:00.123456+00:00''"
  "isoformat 1793795100123456000 = ''2026-11-04T12:25:00.123456+00:00''"
  unfolding isoformat_def Let_def
  by (simp_all add: example_date zero_pad_def str_nat.simps)

lemma three_episodes_geojsons:
  "to_geojsons (Array [Array [Scalar 30, Scalar 40]]) example_timestamps [[7], [8]]
     = Inr example_geojsons"
  by (simp add: to_geojsons_def enumerate_eq_zip upt_rec feature_collection_def feature_def
      tensor_item_def list_item_def example_timestamps_def example_geojsons_def
      example_feature_def example_isoformat)

subsection \<open>The length and the spacing of the timeline\<close>




subsection \<open>What the GeoJSON file holds\<close>

text \<open>
  Claim C4. Whenever \<^verbatim>\<open>render\<close> gets to write the GeoJSON file (the extraction loop,
  the timeline and the conversion have completed), the file holds the serialised
  feature collections, and each of them has exactly
  \<open>min (len timestamps) (len values)\<close> features: the pairing of timestamps and value
  lists is cut to the shorter of the two. Here \<open>len values\<close> is \<open>len trajectory - 1\<close>
  (there is no collection at all for the empty trajectory) and \<open>len timestamps\<close> is
  \<open>num_episodes * num_steps_per_episode\<close> (zero when the product is negative).
\<close>

theorem geojson_feature_count:
  assumes "metadata_entry (config self) name ''name'' = Inr sim_name"
    and "extraction self st = Inr (coords, values)"
    and "timeline self now = Inr timestamps"
    and "to_geojsons coords timestamps values = Inr geojsons"
  shows "snd (render fmt self now st files) (sim_name @ ''.geojson'')
           = Some (json_dump_indent fmt 0 (JArr geojsons))
       \<and> (\<forall>fc\<in>set geojsons. json_get fc ''type'' = Some (JStr ''FeatureCollection'')
             \<and> length (features_of fc) = min (length timestamps) (length values))
       \<and> length values = length st - 1
       \<and> (\<exists>E S. metadata_entry (config self) num_episodes ''num_episodes'' = Inr E
             \<and> metadata_entry (config self) num_steps_per_episode ''num_steps_per_episode'' = Inr S
             \<and> length timestamps = nat (E * S))"
proof (intro conjI)
  show "snd (render fmt self now st files) (sim_name @ ''.geojson'')
           = Some (json_dump_indent fmt 0 (JArr geojsons))"
    using assms by (rule render_writes_geojson)
  from to_geojsons_Inr [OF assms(4)] obtain cs where cs: "coords = Array cs"
    and len: "length geojsons = length cs"
    and fcs: "\<forall>idx<length cs.
          feature_collection timestamps values (idx, cs ! idx) = Inr (geojsons ! idx)"
    by blast
  show "\<forall>fc\<in>set geojsons. json_get fc ''type'' = Some (JStr ''FeatureCollection'')
          \<and> length (features_of fc) = min (length timestamps) (length values)"
  proof
    fix fc assume "fc \<in> set geojsons"
    then obtain idx where idx: "idx < length cs" and fc: "fc = geojsons ! idx"
      using len by (metis in_set_conv_nth)
    from fcs idx fc have "feature_collection timestamps values (idx, cs ! idx) = Inr fc"
      by simp
    from feature_collection_Inr [OF this] show
      "json_get fc ''type'' = Some (JStr ''FeatureCollection'')
       \<and> length (features_of fc) = min (length timestamps) (length values)"
      by (auto simp: features_of_def json_get_def)
  qed
  from assms(2) have "extract_loop self st (py_range (int (length st) - 1)) (Array [], [])
      = Inr (coords, values)"
    by (simp add: extraction_def)
  from extract_loop_values [OF this] show "length values = length st - 1"
    by (auto simp: length_py_range nat_diff_distrib')
  from assms(3) show "\<exists>E S. metadata_entry (config self) num_episodes ''num_episodes'' = Inr E
      \<and> metadata_entry (config self) num_steps_per_episode ''num_steps_per_episode'' = Inr S
      \<and> length timestamps = nat (E * S)"
    by (auto simp: timeline_def total_steps_def dest: length_gen_timestamps split: sum.splits)
qed

theorem geojson_feature_count_witness:
  "metadata_entry (config example_self) name ''name'' = Inr ''sim''
   \<and> extraction example_self three_episodes = Inr (Array [Array [Scalar 30, Scalar 40]], [[7], [8]])
   \<and> timeline example_self example_now = Inr example_timestamps
   \<and> to_geojsons (Array [Array [Scalar 30, Scalar 40]]) example_timestamps [[7], [8]]
        = Inr example_geojsons
   \<and> snd (render str_int example_self example_now three_episodes Map.empty) ''sim.geojson''
        = Some (json_dump_indent str_int 0 (JArr example_geojsons))
   \<and> map (\<lambda>fc. length (features_of fc)) example_geojsons = [2]
   \<and> min (length example_timestamps) (length [[7], [8 :: int]]) = 2
   \<and> length three_episodes - 1 = 2"
  using geojson_feature_count [OF example_name three_episodes_extraction example_timeline
      three_episodes_geojsons, of str_int Map.empty]
    example_name three_episodes_extraction example_timeline three_episodes_geojsons
  by (simp add: example_timestamps_def) (simp add: example_geojsons_def three_episodes_def)

text \<open>
  Claim C5. In every feature that \<^verbatim>\<open>render\<close> writes for the agent \<open>idx\<close>, the
  coordinates of the geometry are \<open>[coord[1], coord[0]]\<close> for the extracted entry
  \<open>coord = coords[idx]\<close>: a pair \<open>[a, b]\<close> (latitude, longitude) is written as \<open>[b, a]\<close>.
\<close>

theorem geometry_swapped:
  assumes "metadata_entry (config self) name ''name'' = Inr sim_name"
    and "extraction self st = Inr (coords, values)"
    and "timeline self now = Inr timestamps"
    and "to_geojsons coords timestamps values = Inr geojsons"
  shows "snd (render fmt self now st files) (sim_name @ ''.geojson'')
           = Some (json_dump_indent fmt 0 (JArr geojsons))
       \<and> (\<exists>cs. coords = Array cs \<and> length geojsons = length cs
             \<and> (\<forall>idx<length cs. \<forall>f\<in>set (features_of (geojsons ! idx)).
                  (\<exists>lat lon. tensor_item (cs ! idx) 0 = Inr lat \<and> tensor_item (cs ! idx) 1 = Inr lon
                     \<and> geometry_coordinates f
                         = Some (JArr [json_of_tensor lon, json_of_tensor lat]))
                  \<and> (\<forall>a b. cs ! idx = Array [Scalar a, Scalar b]
                        \<longrightarrow> geometry_coordinates f = Some (JArr [JNum b, JNum a]))))"
proof (intro conjI)
  show "snd (render fmt self now st files) (sim_name @ ''.geojson'')
           = Some (json_dump_indent fmt 0 (JArr geojsons))"
    using assms by (rule render_writes_geojson)
  from to_geojsons_Inr [OF assms(4)] obtain cs where cs: "coords = Array cs"
    and len: "length geojsons = length cs"
    and fcs: "\<forall>idx<length cs.
          feature_collection timestamps values (idx, cs ! idx) = Inr (geojsons ! idx)"
    by blast
  have "\<forall>idx<length cs. \<forall>f\<in>set (features_of (geojsons ! idx)).
          (\<exists>lat lon. tensor_item (cs ! idx) 0 = Inr lat \<and> tensor_item (cs ! idx) 1 = Inr lon
             \<and> geometry_coordinates f = Some (JArr [json_of_tensor lon, json_of_tensor lat]))
          \<and> (\<forall>a b. cs ! idx = Array [Scalar a, Scalar b]
                \<longrightarrow> geometry_coordinates f = Some (JArr [JNum b, JNum a]))"
  proof (intro allI impI ballI)
    fix idx f
    assume idx: "idx < length cs" and f: "f \<in> set (features_of (geojsons ! idx))"
    from fcs idx have "feature_collection timestamps values (idx, cs ! idx) = Inr (geojsons ! idx)"
      by simp
    from feature_collection_Inr [OF this] obtain features where
      fc: "geojsons ! idx
            = JObj [(''type'', JStr ''FeatureCollection''), (''features'', JArr features)]"
      and nth: "\<forall>k<length features.
          feature idx (cs ! idx) (timestamps ! k, values ! k) = Inr (features ! k)"
      by blast
    from fc f have "f \<in> set features" by (simp add: features_of_def json_get_def)
    then obtain k where "k < length features" and "f = features ! k"
      by (metis in_set_conv_nth)
    with nth have "feature idx (cs ! idx) (timestamps ! k, values ! k) = Inr f" by simp
    from feature_Inr [OF this] obtain lon lat where
      lon: "tensor_item (cs ! idx) 1 = Inr lon" and lat: "tensor_item (cs ! idx) 0 = Inr lat"
      and g: "geometry_coordinates f = Some (JArr [json_of_tensor lon, json_of_tensor lat])"
      by (auto simp: geometry_coordinates_def json_get_def)
    have "\<forall>a b. cs ! idx = Array [Scalar a, Scalar b]
            \<longrightarrow> geometry_coordinates f = Some (JArr [JNum b, JNum a])"
      using lon lat g by (auto simp: tensor_item_def list_item_def)
    with lon lat g show
      "(\<exists>lat lon. tensor_item (cs ! idx) 0 = Inr lat \<and> tensor_item (cs ! idx) 1 = Inr lon
             \<and> geometry_coordinates f = Some (JArr [json_of_tensor lon, json_of_tensor lat]))
          \<and> (\<forall>a b. cs ! idx = Array [Scalar a, Scalar b]
                \<longrightarrow> geometry_coordinates f = Some (JArr [JNum b, JNum a]))"
      by blast
  qed
  with cs len show "\<exists>cs. coords = Array cs \<and> length geojsons = length cs
      \<and> (\<forall>idx<length cs. \<forall>f\<in>set (features_of (geojsons ! idx)).
            (\<exists>lat lon. tensor_item (cs ! idx) 0 = Inr lat \<and> tensor_item (cs ! idx) 1 = Inr lon
               \<and> geometry_coordinates f = Some (JArr [json_of_tensor lon, json_of_tensor lat]))
            \<and> (\<forall>a b. cs ! idx = Array [Scalar a, Scalar b]
                  \<longrightarrow> geometry_coordinates f = Some (JArr [JNum b, JNum a])))"
    by blast
qed

theorem geometry_swapped_witness:
  "metadata_entry (config example_self) name ''name'' = Inr ''sim''
   \<and> extraction example_self three_episodes = Inr (Array [Array [Scalar 30, Scalar 40]], [[7], [8]])
   \<and> timeline example_self example_now = Inr example_timestamps
   \<and> to_geojsons (Array [Array [Scalar 30, Scalar 40]]) example_timestamps [[7], [8]]
        = Inr example_geojsons
   \<and> snd (render str_int example_self example_now three_episodes Map.empty) ''sim.geojson''
        = Some (json_dump_indent str_int 0 (JArr example_geojsons))
   \<and> map geometry_coordinates (features_of (example_geojsons ! 0))
        = [Some (JArr [JNum 40, JNum 30]), Some (JArr [JNum 40, JNum 30])]"
  using geometry_swapped [OF example_name three_episodes_extraction example_timeline
      three_episodes_geojsons, of str_int Map.empty]
    example_name three_episodes_extraction example_timeline three_episodes_geojsons
  by (simp add: example_geojsons_def features_of_def json_get_def geometry_coordinates_def
      example_feature_def)

text \<open>
  Claim C10. Within one feature collection that \<^verbatim>\<open>render\<close> writes, every feature has
  the same geometry: the position of an agent does not vary with the timestamp.
\<close>

theorem collection_geometry_constant:
  assumes "metadata_entry (config self) name ''name'' = Inr sim_name"
    and "extraction self st = Inr (coords, values)"
    and "timeline self now = Inr timestamps"
    and "to_geojsons coords timestamps values = Inr geojsons"
  shows "snd (render fmt self now st files) (sim_name @ ''.geojson'')
           = Some (json_dump_indent fmt 0 (JArr geojsons))
       \<and> (\<forall>fc\<in>set geojsons. \<forall>f\<in>set (features_of fc). \<forall>g\<in>set (features_of fc).
             json_get f ''geometry'' \<noteq> None
             \<and> json_get f ''geometry'' = json_get g ''geometry'')"
proof (intro conjI)
  show "snd (render fmt self now st files) (sim_name @ ''.geojson'')
           = Some (json_dump_indent fmt 0 (JArr geojsons))"
    using assms by (rule render_writes_geojson)
  from to_geojsons_Inr [OF assms(4)] obtain cs where cs: "coords = Array cs"
    and len: "length geojsons = length cs"
    and fcs: "\<forall>idx<length cs.
          feature_collection timestamps values (idx, cs ! idx) = Inr (geojsons ! idx)"
    by blast
  show "\<forall>fc\<in>set geojsons. \<forall>f\<in>set (features_of fc). \<forall>g\<in>set (features_of fc).
          json_get f ''geometry'' \<noteq> None \<and> json_get f ''geometry'' = json_get g ''geometry''"
  proof (intro ballI)
    fix fc f g
    assume "fc \<in> set geojsons" and f: "f \<in> set (features_of fc)"
      and g: "g \<in> set (features_of fc)"
    then obtain idx where idx: "idx < length cs" and fc: "fc = geojsons ! idx"
      using len by (metis in_set_conv_nth)
    from fcs idx fc have "feature_collection timestamps values (idx, cs ! idx) = Inr fc"
      by simp
    from feature_collection_Inr [OF this] obtain features where
      fc': "fc = JObj [(''type'', JStr ''FeatureCollection''), (''features'', JArr features)]"
      and nth: "\<forall>k<length features.
          feature idx (cs ! idx) (timestamps ! k, values ! k) = Inr (features ! k)"
      by blast
    have geo: "\<exists>lon lat. json_get h ''geometry''
        = Some (JObj [(''type'', JStr ''Point''),
             (''coordinates'', JArr [json_of_tensor lon, json_of_tensor lat])])
        \<and> tensor_item (cs ! idx) 1 = Inr lon \<and> tensor_item (cs ! idx) 0 = Inr lat"
      if "h \<in> set (features_of fc)" for h
    proof -
      from that fc' have "h \<in> set features" by (simp add: features_of_def json_get_def)
      then obtain k where "k < length features" and "h = features ! k"
        by (metis in_set_conv_nth)
      with nth have "feature idx (cs ! idx) (timestamps ! k, values ! k) = Inr h" by simp
      from feature_Inr [OF this] show ?thesis by (auto simp: json_get_def)
    qed
    from geo [OF f] geo [OF g] show
      "json_get f ''geometry'' \<noteq> None \<and> json_get f ''geometry'' = json_get g ''geometry''"
      by auto
  qed
qed

theorem collection_geometry_constant_witness:
  "metadata_entry (config example_self) name ''name'' = Inr ''sim''
   \<and> extraction example_self three_episodes = Inr (Array [Array [Scalar 30, Scalar 40]], [[7], [8]])
   \<and> timeline example_self example_now = Inr example_timestamps
   \<and> to_geojsons (Array [Array [Scalar 30, Scalar 40]]) example_timestamps [[7], [8]]
        = Inr example_geojsons
   \<and> snd (render str_int example_self example_now three_episodes Map.empty) ''sim.geojson''
        = Some (json_dump_indent str_int 0 (JArr example_geojsons))
   \<and> length (features_of (example_geojsons ! 0)) = 2
   \<and> json_get (features_of (example_geojsons ! 0) ! 0) ''geometry''
        = json_get (features_of (example_geojsons ! 0) ! 1) ''geometry''"
  using collection_geometry_constant [OF example_name three_episodes_extraction example_timeline
      three_episodes_geojsons, of str_int Map.empty]
    example_name three_episodes_extraction example_timeline three_episodes_geojsons
  by (simp add: example_geojsons_def features_of_def json_get_def example_feature_def)

subsection \<open>Scanning the template line by line\<close>

lemma newline_not_id [simp]:
  "\<not> is_id_char (CHR 0x0A)" "\<not> is_id_start (CHR 0x0A)"
  by (simp_all add: is_id_char_def is_id_start_def)

lemma take1_newline:
  "take 1 (xs @ CHR 0x0A # ys) = ''}'' \<longleftrightarrow> take 1 xs = ''}''"
  by (cases xs) simp_all

lemma braced_newline: "braced (ds @ CHR 0x0A # rest) = braced ds"
  unfolding braced_def dropWhile_append3 [of is_id_char, OF newline_not_id(1)] take1_newline
  by (cases ds) simp_all

text \<open>A line break ends every placeholder, so the scan of a text is the scan of its lines.\<close>

lemma tokenize_newline:
  "tokenize (s @ CHR 0x0A # rest) = tokenize (s @ [CHR 0x0A]) @ tokenize rest"
proof (induction s rule: tokenize.induct)
  case 1
  show ?case by simp
next
  case (2 c cs)
  show ?case
  proof (cases "c = CHR ''$''")
    case False
    with 2 show ?thesis by simp
  next
    case dollar: True
    show ?thesis
    proof (cases cs)
      case Nil
      with dollar show ?thesis by simp
    next
      case (Cons d ds)
      have tw: "takeWhile is_id_char (ds @ CHR 0x0A # rest) = takeWhile is_id_char ds"
        "takeWhile is_id_char (ds @ [CHR 0x0A]) = takeWhile is_id_char ds"
        by (simp_all add: takeWhile_tail)
      have dw: "dropWhile is_id_char (ds @ CHR 0x0A # rest)
                  = dropWhile is_id_char ds @ CHR 0x0A # rest"
        "dropWhile is_id_char (ds @ [CHR 0x0A]) = dropWhile is_id_char ds @ [CHR 0x0A]"
        by (simp_all add: dropWhile_append3)
      have br: "braced (ds @ CHR 0x0A # rest) = braced ds" "braced (ds @ [CHR 0x0A]) = braced ds"
        by (rule braced_newline)+
      consider (esc) "d = CHR ''$''"
        | (named) "d \<noteq> CHR ''$''" "is_id_start d"
        | (braced) "d \<noteq> CHR ''$''" "\<not> is_id_start d" "d = CHR ''{'' \<and> braced ds"
        | (invalid) "d \<noteq> CHR ''$''" "\<not> is_id_start d" "\<not> (d = CHR ''{'' \<and> braced ds)"
        by blast
      then show ?thesis
      proof cases
        case esc
        with 2(2) [OF _ Cons] dollar Cons show ?thesis by simp
      next
        case named
        with 2(3) [OF _ Cons] dollar Cons show ?thesis by (simp add: tw dw)
      next
        case braced
        from braced(3) obtain ys where dd: "dropWhile is_id_char ds = CHR ''}'' # ys"
          by (cases "dropWhile is_id_char ds") (simp_all add: braced_def)
        from braced 2(4) [OF _ Cons] dollar Cons
        have "tokenize (drop 1 (dropWhile is_id_char ds) @ CHR 0x0A # rest)
            = tokenize (drop 1 (dropWhile is_id_char ds) @ [CHR 0x0A]) @ tokenize rest"
          by simp
        then have IH: "tokenize (ys @ CHR 0x0A # rest) = tokenize (ys @ [CHR 0x0A]) @ tokenize rest"
          by (simp add: dd)
        from braced dollar Cons IH show ?thesis by (simp add: tw dw dd br)
      next
        case invalid
        from invalid 2(5) [OF _ Cons] dollar Cons
        have IH: "tokenize (cs @ CHR 0x0A # rest) = tokenize (cs @ [CHR 0x0A]) @ tokenize rest"
          by simp
        from invalid(3) have no: "(d = CHR ''{'' \<and> braced ds) = False" by simp
        from invalid(1,2) dollar Cons IH show ?thesis by (simp add: br no)
      qed
    qed
  qed
qed

lemma tokenize_lines:
  "tokenize (concat (map template_line rows))
     = concat (map (\<lambda>row. tokenize (template_line row)) rows)"
proof (induction rows)
  case Nil
  show ?case by simp
next
  case (Cons row rows)
  have line: "template_line row = (replicate (fst row) (CHR 0x09) @ snd row) @ [CHR 0x0A]"
    by (simp add: template_line_def)
  have "tokenize (concat (map template_line (row # rows)))
      = tokenize ((replicate (fst row) (CHR 0x09) @ snd row)
          @ CHR 0x0A # concat (map template_line rows))"
    by (simp add: line)
  also have "\<dots> = tokenize ((replicate (fst row) (CHR 0x09) @ snd row) @ [CHR 0x0A])
      @ tokenize (concat (map template_line rows))"
    by (rule tokenize_newline)
  also have "\<dots> = tokenize (template_line row)
      @ concat (map (\<lambda>row. tokenize (template_line row)) rows)"
    by (simp only: line Cons.IH)
  finally show ?case by simp
qed

lemma placeholders_concat:
  "placeholders (concat tss) = concat (map placeholders tss)"
  by (induction tss) (simp_all add: placeholders_def)

lemma plain_concat: "plain (concat tss) = list_all plain tss"
  by (induction tss) (simp_all add: plain_def)

subsection \<open>Substitution\<close>

lemma placeholders_simps [simp]:
  "placeholders [] = []"
  "placeholders (Lit c # ts) = placeholders ts"
  "placeholders (Escaped # ts) = placeholders ts"
  "placeholders (Named n # ts) = n # placeholders ts"
  "placeholders (Invalid # ts) = placeholders ts"
  by (simp_all add: placeholders_def)

lemma plain_simps [simp]:
  "plain [] \<longleftrightarrow> True"
  "plain (Lit c # ts) \<longleftrightarrow> plain ts"
  "plain (Escaped # ts) \<longleftrightarrow> False"
  "plain (Named n # ts) \<longleftrightarrow> plain ts"
  "plain (Invalid # ts) \<longleftrightarrow> False"
  by (simp_all add: plain_def)

text \<open>The scan never keeps a delimiter as text.\<close>

lemma tokenize_Lit: "Lit c \<in> set (tokenize s) \<Longrightarrow> c \<noteq> CHR ''$''"
proof (induction s rule: tokenize.induct)
  case 1
  then show ?case by simp
next
  case (2 c' cs)
  then show ?case by (auto split: if_splits list.splits)
qed

text \<open>
  A template of text and placeholders is substituted without an exception when the
  mapping has every placeholder.
\<close>

lemma substitute_tokens_succeeds:
  "plain ts \<Longrightarrow> set (placeholders ts) \<subseteq> dom mapping \<Longrightarrow>
   \<exists>r. substitute_tokens mapping ts = Inr r"
proof (induction ts)
  case Nil
  show ?case by simp
next
  case (Cons t ts)
  then show ?case by (cases t) (auto simp: subscript_def split: sum.splits)
qed

text \<open>The result depends on the mapping at the placeholders of the template only.\<close>

lemma substitute_tokens_cong:
  "\<forall>n\<in>set (placeholders ts). mapping n = mapping' n \<Longrightarrow>
   substitute_tokens mapping ts = substitute_tokens mapping' ts"
proof (induction ts)
  case Nil
  show ?case by simp
next
  case (Cons t ts)
  then show ?case by (cases t) (simp_all split: sum.splits)
qed

text \<open>Every value of a placeholder of the template stands in the result.\<close>

lemma substitute_tokens_value:
  "n \<in> set (placeholders ts) \<Longrightarrow> mapping n = Some v \<Longrightarrow>
   substitute_tokens mapping ts = Inr r \<Longrightarrow> sublist v r"
proof (induction ts arbitrary: r)
  case Nil
  then show ?case by simp
next
  case (Cons t ts)
  from Cons.prems(3) obtain piece rest where
    piece: "convert mapping t = Inr piece" and rest: "substitute_tokens mapping ts = Inr rest"
    and r: "r = piece @ rest"
    by (auto split: sum.splits)
  show ?case
  proof (cases "t = Named n")
    case True
    with piece Cons.prems(2) have "piece = v" by (simp add: subscript_def)
    with r show ?thesis by (simp add: sublist_append_rightI)
  next
    case False
    with Cons.prems(1) have "n \<in> set (placeholders ts)" by (cases t) auto
    from Cons.IH [OF this Cons.prems(2) rest] have "sublist v rest" .
    with r show ?thesis by (simp add: sublist_append)
  qed
qed

text \<open>
  A character that is not the delimiter and stands in no value of a placeholder
  occurs in the result as often as in the text of the template.
\<close>

lemma substitute_tokens_count:
  "substitute_tokens mapping ts = Inr r \<Longrightarrow> c \<noteq> CHR ''$'' \<Longrightarrow>
   \<forall>n\<in>set (placeholders ts). \<forall>v. mapping n = Some v \<longrightarrow> c \<notin> set v \<Longrightarrow>
   count_list r c = count_list ts (Lit c)"
proof (induction ts arbitrary: r)
  case Nil
  then show ?case by simp
next
  case (Cons t ts)
  from Cons.prems(1) obtain piece rest where
    piece: "convert mapping t = Inr piece" and rest: "substitute_tokens mapping ts = Inr rest"
    and r: "r = piece @ rest"
    by (auto split: sum.splits)
  have IH: "count_list rest c = count_list ts (Lit c)"
    using Cons.IH [OF rest Cons.prems(2)] Cons.prems(3) by (cases t) auto
  show ?case
  proof (cases t)
    case (Lit x)
    with piece r IH show ?thesis by auto
  next
    case Escaped
    with piece r IH Cons.prems(2) show ?thesis by auto
  next
    case (Named n)
    with piece Cons.prems(3) have "c \<notin> set piece" by (auto simp: subscript_def split: option.splits)
    then have "count_list piece c = 0" by (simp add: count_list_0_iff)
    with Named r IH show ?thesis by simp
  next
    case Invalid
    with piece show ?thesis by simp
  qed
qed

text \<open>
  Without escaped delimiters in the template and without delimiters in the values of
  its placeholders, no delimiter is left in the result.
\<close>

lemma substitute_tokens_no_delimiter:
  "substitute_tokens mapping ts = Inr r \<Longrightarrow> plain ts \<Longrightarrow>
   \<forall>c. Lit c \<in> set ts \<longrightarrow> c \<noteq> CHR ''$'' \<Longrightarrow>
   \<forall>n\<in>set (placeholders ts). \<forall>v. mapping n = Some v \<longrightarrow> CHR ''$'' \<notin> set v \<Longrightarrow>
   CHR ''$'' \<notin> set r"
proof (induction ts arbitrary: r)
  case Nil
  then show ?case by simp
next
  case (Cons t ts)
  from Cons.prems(1) obtain piece rest where
    piece: "convert mapping t = Inr piece" and rest: "substitute_tokens mapping ts = Inr rest"
    and r: "r = piece @ rest"
    by (auto split: sum.splits)
  have "CHR ''$'' \<notin> set rest"
    using Cons.IH [OF rest] Cons.prems(2-4) by (cases t) auto
  moreover have "CHR ''$'' \<notin> set piece"
    using piece Cons.prems(2-4) by (cases t) (auto simp: subscript_def split: option.splits)
  ultimately show ?case using r by simp
qed

subsection \<open>The placeholders of the viewer template\<close>

lemma count_list_concat:
  "count_list (concat xss) x = sum_list (map (\<lambda>xs. count_list xs x) xss)"
  by (induction xss) simp_all

text \<open>
  The template names four placeholders, \<^verbatim>\<open>$visualType\<close> three times; it has no
  placeholder \<^verbatim>\<open>$data\<close>, no escaped delimiter and no invalid placeholder.
\<close>

lemma template_placeholders:
  "placeholders (tokenize geoplot_template)
     = [''accessToken'', ''visualType'', ''visualType'', ''visualType'', ''startTime'',
        ''stopTime'']"
  unfolding geoplot_template_def tokenize_lines placeholders_concat map_map comp_def
  unfolding geoplot_template_rows_def
  by (simp add: template_line_def is_id_start_def is_id_char_def braced_def eval_nat_numeral)

lemma template_plain: "plain (tokenize geoplot_template)"
  unfolding geoplot_template_def tokenize_lines plain_concat list_all_iff set_map ball_simps
  unfolding list_all_iff [symmetric]
  unfolding geoplot_template_rows_def
  by (simp add: template_line_def is_id_start_def is_id_char_def braced_def eval_nat_numeral)

lemma template_quotes: "count_list (tokenize geoplot_template) (Lit (CHR 0x22)) = 16"
  unfolding geoplot_template_def tokenize_lines count_list_concat map_map comp_def
  unfolding geoplot_template_rows_def
  by (simp add: template_line_def is_id_start_def is_id_char_def braced_def eval_nat_numeral)

subsection \<open>The viewer document\<close>

lemma str_nat_digits: "set (str_nat n) \<subseteq> set ''0123456789''"
proof (induction n rule: str_nat.induct)
  case (1 n)
  have digit: "''0123456789'' ! k \<in> set ''0123456789''" if "k < 10" for k
    using that by (intro nth_mem) simp
  show ?case
  proof (cases "n < 10")
    case True
    then show ?thesis using digit [of n] by (subst str_nat.simps) simp
  next
    case False
    have "n mod 10 < 10" by simp
    from digit [OF this] 1 [OF False] False show ?thesis
      by (subst str_nat.simps) simp
  qed
qed

text \<open>A timestamp in ISO format is made of digits and of the characters \<^verbatim>\<open>-T:.+\<close>.\<close>

lemma isoformat_chars: "set (isoformat t) \<subseteq> set ''-0123456789T:.+''"
proof -
  define S where "S = set ''-0123456789T:.+''"
  have digits: "set ''0123456789'' \<subseteq> S" by (simp add: S_def)
  have str: "set (str_nat n) \<subseteq> S" for n
    using str_nat_digits [of n] digits by (rule subset_trans)
  have zero: "set (replicate k (CHR ''0'')) \<subseteq> S" for k
    by (simp add: set_replicate_conv_if S_def)
  have minus: "CHR ''-'' \<in> S" by (simp add: S_def)
  have pad: "set (zero_pad w i) \<subseteq> S" for w i
    unfolding zero_pad_def using str zero minus by (cases "i < 0") simp_all
  have marks: "set ''-'' \<subseteq> S" "set ''T'' \<subseteq> S" "set '':'' \<subseteq> S" "set ''.'' \<subseteq> S"
    "set ''+00:00'' \<subseteq> S" "set [] \<subseteq> S"
    by (simp_all add: S_def)
  have frac: "set (if n = 0 then (if m = 0 then [] else ''.'' @ zero_pad 6 m)
                   else ''.'' @ zero_pad 6 m @ zero_pad 3 n) \<subseteq> S" for m n :: int
    using pad [of 6 m] pad [of 3 n] marks(4) by (cases "n = 0"; cases "m = 0") simp_all
  have "set (isoformat t) \<subseteq> S"
    unfolding isoformat_def Let_def set_append
    by (intro Un_least pad marks frac)
  then show ?thesis by (simp only: S_def)
qed

lemma isoformat_no_delimiter: "CHR ''$'' \<notin> set (isoformat t)"
proof
  assume "CHR ''$'' \<in> set (isoformat t)"
  with isoformat_chars [of t] have "CHR ''$'' \<in> set ''-0123456789T:.+''" by (rule subsetD)
  then show False by simp
qed

lemma isoformat_no_quote: "CHR 0x22 \<notin> set (isoformat t)"
proof
  assume "CHR 0x22 \<in> set (isoformat t)"
  with isoformat_chars [of t] have "CHR 0x22 \<in> set ''-0123456789T:.+''" by (rule subsetD)
  then show False by simp
qed

text \<open>
  On a timeline that is not empty the substitution succeeds, whatever the access
  token, the visualisation type and the data are.
\<close>

lemma viewer_document_Inr:
  "viewer_document fmt self timestamps geojsons = Inr html \<Longrightarrow>
   timestamps \<noteq> []
   \<and> substitute_tokens
        (map_of
          [(''accessToken'', cesium_token self),
           (''startTime'', isoformat (timestamps ! 0)),
           (''stopTime'', isoformat (last timestamps)),
           (''data'', json_dumps fmt (JArr geojsons)),
           (''visualType'', visualization_type self)])
        (tokenize geoplot_template) = Inr html"
  by (auto simp: viewer_document_def substitutions_def substitute_def list_item_def last_item_def
      split: sum.splits if_splits)

lemma viewer_document_succeeds:
  assumes "timestamps \<noteq> []"
  shows "\<exists>html. viewer_document fmt self timestamps geojsons = Inr html"
proof -
  let ?mapping = "map_of
          [(''accessToken'', cesium_token self),
           (''startTime'', isoformat (timestamps ! 0)),
           (''stopTime'', isoformat (last timestamps)),
           (''data'', json_dumps fmt (JArr geojsons)),
           (''visualType'', visualization_type self)]"
  have "set (placeholders (tokenize geoplot_template)) \<subseteq> dom ?mapping"
    by (simp add: template_placeholders)
  from substitute_tokens_succeeds [OF template_plain this] obtain html where
    "substitute_tokens ?mapping (tokenize geoplot_template) = Inr html" ..
  with assms show ?thesis
    by (simp add: viewer_document_def substitutions_def substitute_def list_item_def
        last_item_def)
qed

text \<open>The viewer document is the same for all data: the template does not name it.\<close>

lemma viewer_document_data:
  "viewer_document fmt self timestamps geojsons = viewer_document fmt' self timestamps geojsons'"
proof (cases "timestamps = []")
  case True
  then show ?thesis
    by (simp add: viewer_document_def substitutions_def list_item_def)
next
  case False
  have "substitute_tokens
        (map_of
          [(''accessToken'', cesium_token self),
           (''startTime'', isoformat (timestamps ! 0)),
           (''stopTime'', isoformat (last timestamps)),
           (''data'', json_dumps fmt (JArr geojsons)),
           (''visualType'', visualization_type self)])
        (tokenize geoplot_template)
    = substitute_tokens
        (map_of
          [(''accessToken'', cesium_token self),
           (''startTime'', isoformat (timestamps ! 0)),
           (''stopTime'', isoformat (last timestamps)),
           (''data'', json_dumps fmt' (JArr geojsons')),
           (''visualType'', visualization_type self)])
        (tokenize geoplot_template)"
    by (rule substitute_tokens_cong) (simp add: template_placeholders)
  with False show ?thesis
    by (simp add: viewer_document_def substitutions_def substitute_def list_item_def
        last_item_def)
qed

text \<open>The stages of a call of \<^verbatim>\<open>render\<close> that returns normally, and of one that completes them.\<close>

lemma render_None:
  assumes "render fmt self now st files = (None, files')"
  shows "\<exists>sim_name coords values timestamps geojsons html.
      metadata_entry (config self) name ''name'' = Inr sim_name
      \<and> extraction self st = Inr (coords, values)
      \<and> timeline self now = Inr timestamps
      \<and> to_geojsons coords timestamps values = Inr geojsons
      \<and> viewer_document fmt self timestamps geojsons = Inr html
      \<and> files' = files(sim_name @ ''.geojson'' \<mapsto> json_dump_indent fmt 0 (JArr geojsons),
                        sim_name @ ''.html'' \<mapsto> html)"
proof (cases "metadata_entry (config self) name ''name''")
  case (Inl e)
  with assms show ?thesis by (simp add: render_def)
next
  case n: (Inr sim_name)
  show ?thesis
  proof (cases "extraction self st")
    case (Inl e)
    with assms n show ?thesis by (simp add: render_def)
  next
    case (Inr cv)
    obtain coords vals where cv: "cv = (coords, vals)" by (cases cv)
    note e = Inr [unfolded cv]
    show ?thesis
    proof (cases "timeline self now")
      case (Inl err)
      with assms n e show ?thesis by (simp add: render_def)
    next
      case t: (Inr timestamps)
      show ?thesis
      proof (cases "to_geojsons coords timestamps vals")
        case (Inl err)
        with assms n e t show ?thesis by (simp add: render_def)
      next
        case g: (Inr geojsons)
        show ?thesis
        proof (cases "viewer_document fmt self timestamps geojsons")
          case (Inl err)
          with assms n e t g show ?thesis by (simp add: render_def)
        next
          case h: (Inr html)
          with assms n e t g
          have "files' = files(sim_name @ ''.geojson'' \<mapsto> json_dump_indent fmt 0 (JArr geojsons),
                        sim_name @ ''.html'' \<mapsto> html)"
            by (simp add: render_def)
          with n e t g h show ?thesis by blast
        qed
      qed
    qed
  qed
qed

lemma render_returns:
  assumes "metadata_entry (config self) name ''name'' = Inr sim_name"
    and "extraction self st = Inr (coords, values)"
    and "timeline self now = Inr timestamps"
    and "to_geojsons coords timestamps values = Inr geojsons"
    and "viewer_document fmt self timestamps geojsons = Inr html"
  shows "render fmt self now st files
     = (None, files(sim_name @ ''.geojson'' \<mapsto> json_dump_indent fmt 0 (JArr geojsons),
                    sim_name @ ''.html'' \<mapsto> html))"
  using assms by (simp add: render_def Let_def)

text \<open>What the viewer document holds, and what it does not.\<close>

lemma viewer_document_contains:
  assumes "viewer_document fmt self timestamps geojsons = Inr html"
  shows "sublist (cesium_token self) html \<and> sublist (visualization_type self) html
       \<and> sublist (isoformat (timestamps ! 0)) html
       \<and> sublist (isoformat (last timestamps)) html"
proof -
  let ?mapping = "map_of
          [(''accessToken'', cesium_token self),
           (''startTime'', isoformat (timestamps ! 0)),
           (''stopTime'', isoformat (last timestamps)),
           (''data'', json_dumps fmt (JArr geojsons)),
           (''visualType'', visualization_type self)]"
  from viewer_document_Inr [OF assms]
  have s: "substitute_tokens ?mapping (tokenize geoplot_template) = Inr html" by simp
  have "sublist (cesium_token self) html"
    by (rule substitute_tokens_value [OF _ _ s, of "''accessToken''"])
      (simp_all add: template_placeholders)
  moreover have "sublist (visualization_type self) html"
    by (rule substitute_tokens_value [OF _ _ s, of "''visualType''"])
      (simp_all add: template_placeholders)
  moreover have "sublist (isoformat (timestamps ! 0)) html"
    by (rule substitute_tokens_value [OF _ _ s, of "''startTime''"])
      (simp_all add: template_placeholders)
  moreover have "sublist (isoformat (last timestamps)) html"
    by (rule substitute_tokens_value [OF _ _ s, of "''stopTime''"])
      (simp_all add: template_placeholders)
  ultimately show ?thesis by blast
qed

lemma viewer_document_no_delimiter:
  assumes "viewer_document fmt self timestamps geojsons = Inr html"
    and "CHR ''$'' \<notin> set (cesium_token self)"
    and "CHR ''$'' \<notin> set (visualization_type self)"
  shows "CHR ''$'' \<notin> set html"
proof -
  let ?mapping = "map_of
          [(''accessToken'', cesium_token self),
           (''startTime'', isoformat (timestamps ! 0)),
           (''stopTime'', isoformat (last timestamps)),
           (''data'', json_dumps fmt (JArr geojsons)),
           (''visualType'', visualization_type self)]"
  from viewer_document_Inr [OF assms(1)]
  have s: "substitute_tokens ?mapping (tokenize geoplot_template) = Inr html" by simp
  have lits: "\<forall>c. Lit c \<in> set (tokenize geoplot_template) \<longrightarrow> c \<noteq> CHR ''$''"
    using tokenize_Lit by blast
  have vals: "\<forall>n\<in>set (placeholders (tokenize geoplot_template)).
      \<forall>v. ?mapping n = Some v \<longrightarrow> CHR ''$'' \<notin> set v"
    using assms(2,3) by (simp add: template_placeholders isoformat_no_delimiter)
  from substitute_tokens_no_delimiter [OF s template_plain lits vals] show ?thesis .
qed

lemma viewer_document_quotes:
  assumes "viewer_document fmt self timestamps geojsons = Inr html"
    and "CHR 0x22 \<notin> set (cesium_token self)"
    and "CHR 0x22 \<notin> set (visualization_type self)"
  shows "count_list html (CHR 0x22) = 16"
proof -
  let ?mapping = "map_of
          [(''accessToken'', cesium_token self),
           (''startTime'', isoformat (timestamps ! 0)),
           (''stopTime'', isoformat (last timestamps)),
           (''data'', json_dumps fmt (JArr geojsons)),
           (''visualType'', visualization_type self)]"
  from viewer_document_Inr [OF assms(1)]
  have s: "substitute_tokens ?mapping (tokenize geoplot_template) = Inr html" by simp
  have vals: "\<forall>n\<in>set (placeholders (tokenize geoplot_template)).
      \<forall>v. ?mapping n = Some v \<longrightarrow> CHR 0x22 \<notin> set v"
    using assms(2,3) by (simp add: template_placeholders isoformat_no_quote)
  have "count_list html (CHR 0x22) = count_list (tokenize geoplot_template) (Lit (CHR 0x22))"
    by (rule substitute_tokens_count [OF s _ vals]) simp
  then show ?thesis by (simp add: template_quotes)
qed

lemma sublist_count_le: "sublist xs ys \<Longrightarrow> count_list xs c \<le> count_list ys c"
  by (auto simp: sublist_def)

lemma sublist_no_char: "sublist xs ys \<Longrightarrow> c \<notin> set ys \<Longrightarrow> c \<in> set xs \<Longrightarrow> False"
  by (auto simp: sublist_def)

text \<open>A timeline within the bounds of the 64-bit counts, as a list.\<close>

lemma timeline_Inr:
  assumes "simulation_metadata (config self) = Some md"
    and "num_episodes md = Some E" and "num_steps_per_episode md = Some S"
    and "\<forall>i. 0 \<le> i \<and> i < E * S \<longrightarrow>
           \<bar>i * step_time self * 1000000000\<bar> < 2 ^ 63
           \<and> \<bar>start + i * step_time self * 1000000000\<bar> < 2 ^ 63"
  shows "timeline self start
     = Inr (map (\<lambda>i. start + int i * step_time self * 1000000000) (py_range (E * S)))"
proof -
  let ?g = "\<lambda>i::nat. start + int i * step_time self * 1000000000"
  have "\<forall>i\<in>set (py_range (E * S)).
      (case Timedelta (int i * step_time self) of
         Inl e \<Rightarrow> Inl e
       | Inr delta \<Rightarrow> timestamp_add start delta) = Inr (?g i)"
  proof
    fix i assume "i \<in> set (py_range (E * S))"
    then have "0 \<le> int i \<and> int i < E * S" by (simp add: set_py_range)
    with assms(4) have "\<bar>int i * step_time self * 1000000000\<bar> < 2 ^ 63"
      and "\<bar>start + int i * step_time self * 1000000000\<bar> < 2 ^ 63"
      by blast+
    then show "(case Timedelta (int i * step_time self) of
         Inl e \<Rightarrow> Inl e
       | Inr delta \<Rightarrow> timestamp_add start delta) = Inr (?g i)"
      by (simp add: Timedelta_def timestamp_add_def in_bounds_def abs_less_iff)
  qed
  then have "gen_timestamps start (step_time self) (E * S) = Inr (map ?g (py_range (E * S)))"
    unfolding gen_timestamps_def by (rule comprehension_map)
  then show ?thesis
    using assms(1-3) by (simp add: timeline_def total_steps_Some)
qed

subsection \<open>Missing keys\<close>

text \<open>
  Claim C8, as stated: when a required key of the configuration is absent, \<^verbatim>\<open>render\<close>
  fails with a key-access error. This fails for \<^verbatim>\<open>num_episodes\<close> and
  \<^verbatim>\<open>num_steps_per_episode\<close>, which are looked up after the extraction loop: with
  \<^verbatim>\<open>num_episodes\<close> absent and a trajectory whose first episode is empty, the
  subscript \<^verbatim>\<open>state_trajectory[0][-1]\<close> raises \<^verbatim>\<open>IndexError\<close> first, and that is the
  exception of the call.
\<close>

theorem missing_key_counterexample:
  "simulation_metadata (config no_episodes_self)
     = Some (example_metadata\<lparr>num_episodes := None\<rparr>)
   \<and> num_episodes (example_metadata\<lparr>num_episodes := None\<rparr>) = None
   \<and> render str_int no_episodes_self example_now [[], []] Map.empty
        = (Some IndexError, Map.empty)"
  by (simp add: render_def metadata_entry_def subscript_def no_episodes_self_def example_defs
      extract_defs upt_rec)

text \<open>
  Claim C8, amended. Construction with an options mapping that lacks one of the five
  keys fails with the key-access error of the first absent key, in the order
  \<^verbatim>\<open>cesium_token\<close>, \<^verbatim>\<open>step_time\<close>, \<^verbatim>\<open>coordinates\<close>, \<^verbatim>\<open>feature\<close>,
  \<^verbatim>\<open>visualization_type\<close>. A call of \<^verbatim>\<open>render\<close> fails with the key-access error of
  \<^verbatim>\<open>simulation_metadata\<close> or of \<^verbatim>\<open>name\<close> when that key is absent; when \<^verbatim>\<open>name\<close> is there
  and \<^verbatim>\<open>num_episodes\<close> or \<^verbatim>\<open>num_steps_per_episode\<close> is absent it fails too, with the
  exception of the extraction loop if the loop raises one, and with the key-access
  error of the absent key (\<^verbatim>\<open>num_episodes\<close> first) if the loop completes. In every case
  the exception reaches the caller as it was raised and no file is written.
\<close>

theorem missing_key_errors:
  "(opt_cesium_token opts = None \<longrightarrow> GeoPlot_init cfg opts = Inl (KeyError ''cesium_token''))
   \<and> (opt_cesium_token opts \<noteq> None \<and> opt_step_time opts = None
        \<longrightarrow> GeoPlot_init cfg opts = Inl (KeyError ''step_time''))
   \<and> (opt_cesium_token opts \<noteq> None \<and> opt_step_time opts \<noteq> None
        \<and> opt_coordinates opts = None
        \<longrightarrow> GeoPlot_init cfg opts = Inl (KeyError ''coordinates''))
   \<and> (opt_cesium_token opts \<noteq> None \<and> opt_step_time opts \<noteq> None
        \<and> opt_coordinates opts \<noteq> None \<and> opt_feature opts = None
        \<longrightarrow> GeoPlot_init cfg opts = Inl (KeyError ''feature''))
   \<and> (opt_cesium_token opts \<noteq> None \<and> opt_step_time opts \<noteq> None
        \<and> opt_coordinates opts \<noteq> None \<and> opt_feature opts \<noteq> None
        \<and> opt_visualization_type opts = None
        \<longrightarrow> GeoPlot_init cfg opts = Inl (KeyError ''visualization_type''))
   \<and> (simulation_metadata (config self) = None
        \<longrightarrow> render fmt self now st files = (Some (KeyError ''simulation_metadata''), files))
   \<and> (\<forall>md. simulation_metadata (config self) = Some md \<and> name md = None
        \<longrightarrow> render fmt self now st files = (Some (KeyError ''name''), files))
   \<and> (\<forall>md sim_name. simulation_metadata (config self) = Some md \<and> name md = Some sim_name
          \<and> (num_episodes md = None \<or> num_steps_per_episode md = None)
        \<longrightarrow> (case extraction self st of
               Inl e \<Rightarrow> render fmt self now st files = (Some e, files)
             | Inr cv \<Rightarrow>
                 render fmt self now st files
                   = (Some (KeyError (if num_episodes md = None then ''num_episodes''
                                      else ''num_steps_per_episode'')), files)))"
proof (intro conjI allI impI)
  show "GeoPlot_init cfg opts = Inl (KeyError ''cesium_token'')"
    if "opt_cesium_token opts = None"
    using that by (simp add: GeoPlot_init_def subscript_def)
  show "GeoPlot_init cfg opts = Inl (KeyError ''step_time'')"
    if "opt_cesium_token opts \<noteq> None \<and> opt_step_time opts = None"
    using that by (auto simp: GeoPlot_init_def subscript_def)
  show "GeoPlot_init cfg opts = Inl (KeyError ''coordinates'')"
    if "opt_cesium_token opts \<noteq> None \<and> opt_step_time opts \<noteq> None
        \<and> opt_coordinates opts = None"
    using that by (auto simp: GeoPlot_init_def subscript_def)
  show "GeoPlot_init cfg opts = Inl (KeyError ''feature'')"
    if "opt_cesium_token opts \<noteq> None \<and> opt_step_time opts \<noteq> None
        \<and> opt_coordinates opts \<noteq> None \<and> opt_feature opts = None"
    using that by (auto simp: GeoPlot_init_def subscript_def)
  show "GeoPlot_init cfg opts = Inl (KeyError ''visualization_type'')"
    if "opt_cesium_token opts \<noteq> None \<and> opt_step_time opts \<noteq> None
        \<and> opt_coordinates opts \<noteq> None \<and> opt_feature opts \<noteq> None
        \<and> opt_visualization_type opts = None"
    using that by (auto simp: GeoPlot_init_def subscript_def)
  show "render fmt self now st files = (Some (KeyError ''simulation_metadata''), files)"
    if "simulation_metadata (config self) = None"
    using that by (simp add: render_def metadata_entry_def subscript_def)
  show "render fmt self now st files = (Some (KeyError ''name''), files)"
    if "simulation_metadata (config self) = Some md \<and> name md = None" for md
    using that by (simp add: render_def metadata_entry_def subscript_def)
  show "case extraction self st of
          Inl e \<Rightarrow> render fmt self now st files = (Some e, files)
        | Inr cv \<Rightarrow>
            render fmt self now st files
              = (Some (KeyError (if num_episodes md = None then ''num_episodes''
                                 else ''num_steps_per_episode'')), files)"
    if a: "simulation_metadata (config self) = Some md \<and> name md = Some sim_name
          \<and> (num_episodes md = None \<or> num_steps_per_episode md = None)" for md sim_name
  proof -
    from a have n: "metadata_entry (config self) name ''name'' = Inr sim_name"
      by (simp add: metadata_entry_def subscript_def)
    from a have t: "timeline self now
        = Inl (KeyError (if num_episodes md = None then ''num_episodes''
                         else ''num_steps_per_episode''))"
      by (auto simp: timeline_def total_steps_def metadata_entry_def subscript_def)
    show ?thesis
    proof (cases "extraction self st")
      case (Inl e)
      with n show ?thesis by (simp add: render_def)
    next
      case (Inr cv)
      with n t show ?thesis by (cases cv) (simp add: render_def)
    qed
  qed
qed

theorem missing_key_errors_witness:
  "opt_feature partial_options = None
   \<and> GeoPlot_init example_config partial_options = Inl (KeyError ''feature'')
   \<and> num_episodes (example_metadata\<lparr>num_episodes := None\<rparr>) = None
   \<and> render str_int no_episodes_self example_now three_episodes Map.empty
        = (Some (KeyError ''num_episodes''), Map.empty)
   \<and> render str_int no_episodes_self example_now [[], []] Map.empty
        = (Some IndexError, Map.empty)"
proof -
  have e1: "extraction no_episodes_self three_episodes
      = Inr (Array [Array [Scalar 30, Scalar 40]], [[7], [8]])"
    by (simp add: extract_defs no_episodes_self_def example_defs three_episodes_def upt_rec)
  have e2: "extraction no_episodes_self ([[], []] :: int trajectory) = Inl IndexError"
    by (simp add: extract_defs upt_rec)
  have md: "simulation_metadata (config no_episodes_self)
      = Some (example_metadata\<lparr>num_episodes := None\<rparr>)"
    "name (example_metadata\<lparr>num_episodes := None\<rparr>) = Some ''sim''"
    "num_episodes (example_metadata\<lparr>num_episodes := None\<rparr>) = None"
    by (simp_all add: no_episodes_self_def example_defs)
  have opts: "opt_cesium_token partial_options \<noteq> None" "opt_step_time partial_options \<noteq> None"
    "opt_coordinates partial_options \<noteq> None" "opt_feature partial_options = None"
    by (simp_all add: partial_options_def)
  from missing_key_errors [of partial_options example_config no_episodes_self str_int
      example_now three_episodes Map.empty] opts md e1
  have a: "GeoPlot_init example_config partial_options = Inl (KeyError ''feature'')"
    and b: "render str_int no_episodes_self example_now three_episodes Map.empty
        = (Some (KeyError ''num_episodes''), Map.empty)"
    by simp_all
  from missing_key_errors [of partial_options example_config no_episodes_self str_int
      example_now "[[], []]" Map.empty] md e2
  have c: "render str_int no_episodes_self example_now [[], []] Map.empty
        = (Some IndexError, Map.empty)"
    by simp
  from a b c opts md show ?thesis by simp
qed

subsection \<open>The example and its variants, rendered\<close>

lemma empty_extraction: "length st \<le> 1 \<Longrightarrow> extraction self st = Inr (Array [], [])"
  by (simp add: extraction_def py_range_def)

lemma empty_geojsons: "to_geojsons (Array []) timestamps [] = Inr []"
  by (simp add: to_geojsons_def enumerate_eq_zip)

lemma example_timestamps_ends:
  "example_timestamps \<noteq> []" "example_timestamps ! 0 = example_now"
  by (simp_all add: example_timestamps_def example_now_def)

lemma example_data_quotes:
  "count_list (json_dumps str_int (JArr example_geojsons)) (CHR 0x22) = 46"
  by (simp add: example_geojsons_def example_feature_def json_string_def str_int_def
      str_nat.simps)

subsection \<open>The data and the viewer document\<close>

text \<open>
  Claim C6 says that the viewer document embeds the serialised feature collections.
  It does not: \<^verbatim>\<open>render\<close> hands the serialised data to \<^verbatim>\<open>substitute\<close> under the key
  \<^verbatim>\<open>data\<close>, and the template has no placeholder of that name, so the data is dropped.
  For the three example episodes the call returns normally and writes the feature
  collections to the GeoJSON file; the viewer document has the 16 double quotes of the
  template while the serialised data has 46, so the data is not part of the document;
  and the document is the one that the empty trajectory gives.
\<close>

theorem viewer_document_without_data:
  "fst (render str_int example_self example_now three_episodes Map.empty) = None
   \<and> snd (render str_int example_self example_now three_episodes Map.empty) ''sim.geojson''
        = Some (json_dump_indent str_int 0 (JArr example_geojsons))
   \<and> (case snd (render str_int example_self example_now three_episodes Map.empty) ''sim.html'' of
         None \<Rightarrow> False
       | Some html \<Rightarrow>
           count_list html (CHR 0x22) = 16
           \<and> \<not> sublist (json_dumps str_int (JArr example_geojsons)) html)
   \<and> snd (render str_int example_self example_now three_episodes Map.empty) ''sim.html''
        = snd (render str_int example_self example_now [] Map.empty) ''sim.html''"
proof -
  from viewer_document_succeeds [OF example_timestamps_ends(1)] obtain html where
    h: "viewer_document str_int example_self example_timestamps example_geojsons = Inr html"
    by blast
  have h': "viewer_document str_int example_self example_timestamps [] = Inr html"
    using h viewer_document_data [of str_int example_self example_timestamps "[]" str_int
        example_geojsons] by simp
  have r: "render str_int example_self example_now three_episodes Map.empty
      = (None, [''sim.geojson'' \<mapsto> json_dump_indent str_int 0 (JArr example_geojsons),
                ''sim.html'' \<mapsto> html])"
    using render_returns [OF example_name three_episodes_extraction example_timeline
        three_episodes_geojsons h, of Map.empty] by simp
  have r': "render str_int example_self example_now [] Map.empty
      = (None, [''sim.geojson'' \<mapsto> json_dump_indent str_int 0 (JArr []),
                ''sim.html'' \<mapsto> html])"
    using render_returns [OF example_name empty_extraction example_timeline empty_geojsons h',
        of "[]" Map.empty] by simp
  have q: "count_list html (CHR 0x22) = 16"
    by (rule viewer_document_quotes [OF h]) (simp_all add: example_self_def)
  have "\<not> sublist (json_dumps str_int (JArr example_geojsons)) html"
  proof
    assume "sublist (json_dumps str_int (JArr example_geojsons)) html"
    from sublist_count_le [OF this, of "CHR 0x22"] q example_data_quotes show False by simp
  qed
  with q r r' show ?thesis by simp
qed

subsection \<open>Placeholders and their neighbours\<close>

lemma sealed_append: "sealed xs \<Longrightarrow> closed xs \<Longrightarrow> sealed ys \<Longrightarrow> sealed (xs @ ys)"
proof (induction xs)
  case Nil
  then show ?case by (simp add: closed_def)
next
  case (Cons t ts)
  show ?case
  proof (cases "ts = []")
    case True
    with Cons.prems(2) obtain c where "t = Lit c"
      by (cases t) (simp_all add: closed_def)
    with True Cons.prems(3) show ?thesis by simp
  next
    case False
    with Cons.prems(2) have c: "closed ts" by (simp add: closed_def)
    from Cons.prems(1) have s: "sealed ts" by (cases t) simp_all
    from Cons.IH [OF s c Cons.prems(3)] have IH: "sealed (ts @ ys)" .
    show ?thesis
    proof (cases t)
      case (Named n)
      from False obtain u us where ts: "ts = u # us" by (cases ts) auto
      with Named Cons.prems(1) IH show ?thesis by simp
    qed (use IH in simp_all)
  qed
qed

lemma sealed_concat: "\<forall>ts\<in>set tss. sealed ts \<and> closed ts \<Longrightarrow> sealed (concat tss)"
  by (induction tss) (simp_all add: sealed_append)

text \<open>
  A delimiter followed by identifier characters that stands in no value of a
  placeholder does not stand in the result either: it cannot start in the text of the
  template, which has no delimiter, and it cannot run from a value into the text that
  follows, which does not continue an identifier.
\<close>

lemma substitute_tokens_no_token:
  assumes "substitute_tokens mapping ts = Inr r" and "plain ts" and "sealed ts"
    and "\<forall>c. Lit c \<in> set ts \<longrightarrow> c \<noteq> CHR ''$''"
    and "\<forall>n\<in>set (placeholders ts). \<forall>v. mapping n = Some v \<longrightarrow> \<not> sublist (CHR ''$'' # p) v"
    and "\<forall>c\<in>set p. is_id_char c"
  shows "\<not> sublist (CHR ''$'' # p) r"
  using assms(1-5)
proof (induction ts arbitrary: r)
  case Nil
  then show ?case by simp
next
  case (Cons t ts)
  from Cons.prems(1) obtain piece rest where
    piece: "convert mapping t = Inr piece" and rest: "substitute_tokens mapping ts = Inr rest"
    and r: "r = piece @ rest"
    by (auto split: sum.splits)
  have tail: "plain ts" "sealed ts" "\<forall>c. Lit c \<in> set ts \<longrightarrow> c \<noteq> CHR ''$''"
    "\<forall>n\<in>set (placeholders ts). \<forall>v. mapping n = Some v \<longrightarrow> \<not> sublist (CHR ''$'' # p) v"
    using Cons.prems(2-5) by (cases t; simp)+
  from Cons.IH [OF rest tail] have IH: "\<not> sublist (CHR ''$'' # p) rest" .
  show ?case
  proof (cases t)
    case (Lit c)
    with Cons.prems(4) have "c \<noteq> CHR ''$''" by simp
    moreover from Lit piece r have "r = c # rest" by auto
    ultimately show ?thesis using IH by (simp add: sublist_Cons_right)
  next
    case Escaped
    with Cons.prems(2) show ?thesis by simp
  next
    case Invalid
    with Cons.prems(2) show ?thesis by simp
  next
    case (Named n)
    with piece have v: "mapping n = Some piece"
      by (simp add: subscript_def split: option.splits)
    with Named Cons.prems(5) have nv: "\<not> sublist (CHR ''$'' # p) piece" by simp
    show ?thesis
    proof
      assume "sublist (CHR ''$'' # p) r"
      with r nv IH obtain xs1 xs2 where
        split: "CHR ''$'' # p = xs1 @ xs2" and s1: "suffix xs1 piece" and p2: "prefix xs2 rest"
        by (auto simp: sublist_append)
      have "xs1 \<noteq> []"
      proof
        assume "xs1 = []"
        with split p2 have "prefix (CHR ''$'' # p) rest" by simp
        with IH show False by (simp add: prefix_imp_sublist)
      qed
      moreover have "xs2 \<noteq> []"
      proof
        assume "xs2 = []"
        with split s1 have "suffix (CHR ''$'' # p) piece" by simp
        with nv show False by (simp add: suffix_imp_sublist)
      qed
      ultimately obtain x xs2' where xs2: "xs2 = x # xs2'" and "x \<in> set p"
        using split by (cases xs1; cases xs2) auto
      with assms(6) have idc: "is_id_char x" by simp
      from p2 xs2 obtain rest' where rest': "rest = x # rest'"
        by (auto simp: prefix_def)
      from Named Cons.prems(3) have
        next_tok: "case ts of [] \<Rightarrow> True | Lit c # rest \<Rightarrow> \<not> is_id_char c | _ \<Rightarrow> False"
        by simp
      show False
      proof (cases ts)
        case Nil
        with rest rest' show False by simp
      next
        case (Cons u us)
        with next_tok obtain c where u: "u = Lit c" and nc: "\<not> is_id_char c"
          by (cases u) simp_all
        from rest Cons u have "\<exists>tl. rest = c # tl" by (auto split: sum.splits)
        with rest' have "c = x" by auto
        with nc idc show False by simp
      qed
    qed
  qed
qed

lemma template_sealed: "sealed (tokenize geoplot_template)"
  unfolding geoplot_template_def tokenize_lines
  by (rule sealed_concat)
    (simp add: geoplot_template_rows_def template_line_def is_id_start_def is_id_char_def
      braced_def closed_def eval_nat_numeral)

subsection \<open>Placeholders in the viewer document\<close>

lemma placeholder_token_shape:
  "p \<in> set placeholder_tokens \<Longrightarrow> \<exists>q. p = CHR ''$'' # q \<and> (\<forall>c\<in>set q. is_id_char c)"
  by (auto simp: placeholder_tokens_def is_id_char_def is_id_start_def)

lemma no_delimiter_no_token: "CHR ''$'' \<notin> set v \<Longrightarrow> \<not> sublist (CHR ''$'' # q) v"
  using set_mono_sublist [of "CHR ''$'' # q" v] by auto

lemma viewer_document_no_token:
  assumes "viewer_document fmt self timestamps geojsons = Inr html"
    and "p \<in> set placeholder_tokens"
    and "\<not> sublist p (cesium_token self)"
    and "\<not> sublist p (visualization_type self)"
  shows "\<not> sublist p html"
proof -
  let ?mapping = "map_of
          [(''accessToken'', cesium_token self),
           (''startTime'', isoformat (timestamps ! 0)),
           (''stopTime'', isoformat (last timestamps)),
           (''data'', json_dumps fmt (JArr geojsons)),
           (''visualType'', visualization_type self)]"
  from placeholder_token_shape [OF assms(2)] obtain q where
    p: "p = CHR ''$'' # q" and q: "\<forall>c\<in>set q. is_id_char c" by blast
  from viewer_document_Inr [OF assms(1)]
  have s: "substitute_tokens ?mapping (tokenize geoplot_template) = Inr html" by simp
  have lits: "\<forall>c. Lit c \<in> set (tokenize geoplot_template) \<longrightarrow> c \<noteq> CHR ''$''"
    using tokenize_Lit by blast
  have vals: "\<forall>n\<in>set (placeholders (tokenize geoplot_template)).
      \<forall>v. ?mapping n = Some v \<longrightarrow> \<not> sublist (CHR ''$'' # q) v"
    using assms(3,4) p
    by (simp add: template_placeholders no_delimiter_no_token [OF isoformat_no_delimiter])
  from substitute_tokens_no_token [OF s template_plain template_sealed lits vals q] p
  show ?thesis by simp
qed

text \<open>
  Claim C7, as stated: after every call of \<^verbatim>\<open>render\<close> that returns normally the viewer
  document contains none of the placeholders. This fails when a substituted value
  contains one: the text that replaces a placeholder is not scanned again, so with the
  access token \<^verbatim>\<open>$accessToken\<close> the document contains \<^verbatim>\<open>$accessToken\<close>.
\<close>

theorem placeholder_left_counterexample:
  "cesium_token dollar_token_self = ''$accessToken''
   \<and> fst (render str_int dollar_token_self example_now three_episodes Map.empty) = None
   \<and> (case snd (render str_int dollar_token_self example_now three_episodes Map.empty)
             ''sim.html'' of
         None \<Rightarrow> False
       | Some html \<Rightarrow> sublist ''$accessToken'' html)"
proof -
  have n: "metadata_entry (config dollar_token_self) name ''name'' = Inr ''sim''"
    by (simp add: metadata_entry_def subscript_def dollar_token_self_def example_defs)
  have e: "extraction dollar_token_self three_episodes
      = Inr (Array [Array [Scalar 30, Scalar 40]], [[7], [8]])"
    by (simp add: extract_defs dollar_token_self_def example_defs three_episodes_def upt_rec)
  have t: "timeline dollar_token_self example_now = Inr example_timestamps"
    by (simp add: timeline_def total_steps_def metadata_entry_def subscript_def
        dollar_token_self_def example_defs example_now_def example_timestamps_def
        gen_timestamps_def py_range_def Timedelta_def timestamp_add_def in_bounds_def upt_rec)
  from viewer_document_succeeds [OF example_timestamps_ends(1)] obtain html where
    h: "viewer_document str_int dollar_token_self example_timestamps example_geojsons = Inr html"
    by blast
  have r: "render str_int dollar_token_self example_now three_episodes Map.empty
      = (None, [''sim.geojson'' \<mapsto> json_dump_indent str_int 0 (JArr example_geojsons),
                ''sim.html'' \<mapsto> html])"
    using render_returns [OF n e t three_episodes_geojsons h, of Map.empty] by simp
  have c: "cesium_token dollar_token_self = ''$accessToken''"
    by (simp add: dollar_token_self_def)
  from viewer_document_contains [OF h] c have "sublist ''$accessToken'' html" by simp
  with r c show ?thesis by simp
qed

text \<open>
  Claim C7, amended: after a call of \<^verbatim>\<open>render\<close> that returns normally, with an access
  token and a visualisation type that contain none of the placeholders
  \<^verbatim>\<open>$accessToken\<close>, \<^verbatim>\<open>$startTime\<close>, \<^verbatim>\<open>$stopTime\<close> and \<^verbatim>\<open>$visualType\<close>, the viewer
  document that the call has written contains none of them either: every placeholder
  of the template has been replaced by its value, and the access token and the
  visualisation type stand in the document. When the two values contain no \<^verbatim>\<open>$\<close>, the
  document contains no \<^verbatim>\<open>$\<close> at all.
\<close>

theorem no_placeholder_left:
  assumes "render fmt self now st files = (None, files')"
    and "\<forall>p\<in>set placeholder_tokens.
           \<not> sublist p (cesium_token self) \<and> \<not> sublist p (visualization_type self)"
  shows "\<exists>sim_name html.
      metadata_entry (config self) name ''name'' = Inr sim_name
      \<and> files' (sim_name @ ''.html'') = Some html
      \<and> \<not> sublist ''$accessToken'' html \<and> \<not> sublist ''$startTime'' html
      \<and> \<not> sublist ''$stopTime'' html \<and> \<not> sublist ''$visualType'' html
      \<and> sublist (cesium_token self) html \<and> sublist (visualization_type self) html
      \<and> (CHR ''$'' \<notin> set (cesium_token self) \<and> CHR ''$'' \<notin> set (visualization_type self)
            \<longrightarrow> CHR ''$'' \<notin> set html)"
proof -
  from render_None [OF assms(1)] obtain sim_name timestamps geojsons html where
    n: "metadata_entry (config self) name ''name'' = Inr sim_name"
    and h: "viewer_document fmt self timestamps geojsons = Inr html"
    and f: "files' = files(sim_name @ ''.geojson'' \<mapsto> json_dump_indent fmt 0 (JArr geojsons),
                        sim_name @ ''.html'' \<mapsto> html)"
    by blast
  have no: "\<not> sublist p html" if "p \<in> set placeholder_tokens" for p
    using viewer_document_no_token [OF h that] assms(2) that by blast
  have "\<not> sublist ''$accessToken'' html" "\<not> sublist ''$startTime'' html"
    "\<not> sublist ''$stopTime'' html" "\<not> sublist ''$visualType'' html"
    by (rule no, simp add: placeholder_tokens_def)+
  moreover from f have "files' (sim_name @ ''.html'') = Some html" by simp
  moreover have "CHR ''$'' \<notin> set (cesium_token self) \<and> CHR ''$'' \<notin> set (visualization_type self)
            \<longrightarrow> CHR ''$'' \<notin> set html"
    using viewer_document_no_delimiter [OF h] by blast
  moreover note viewer_document_contains [OF h] n
  ultimately show ?thesis by blast
qed

theorem no_placeholder_left_witness:
  "list_all
     (\<lambda>p. \<not> sublist p (cesium_token example_self)
        \<and> \<not> sublist p (visualization_type example_self))
     placeholder_tokens
   \<and> (\<exists>html. render str_int example_self example_now three_episodes Map.empty
          = (None, [''sim.geojson'' \<mapsto> json_dump_indent str_int 0 (JArr example_geojsons),
                    ''sim.html'' \<mapsto> html])
        \<and> \<not> sublist ''$accessToken'' html \<and> \<not> sublist ''$startTime'' html
        \<and> \<not> sublist ''$stopTime'' html \<and> \<not> sublist ''$visualType'' html
        \<and> sublist ''token'' html \<and> sublist ''color'' html
        \<and> CHR ''$'' \<notin> set html)"
proof -
  from viewer_document_succeeds [OF example_timestamps_ends(1)] obtain html where
    h: "viewer_document str_int example_self example_timestamps example_geojsons = Inr html"
    by blast
  have r: "render str_int example_self example_now three_episodes Map.empty
      = (None, [''sim.geojson'' \<mapsto> json_dump_indent str_int 0 (JArr example_geojsons),
                ''sim.html'' \<mapsto> html])"
    using render_returns [OF example_name three_episodes_extraction example_timeline
        three_episodes_geojsons h, of Map.empty] by simp
  have c: "CHR ''$'' \<notin> set (cesium_token example_self)"
    "CHR ''$'' \<notin> set (visualization_type example_self)"
    "cesium_token example_self = ''token''" "visualization_type example_self = ''color''"
    by (simp_all add: example_self_def)
  have hyp: "\<forall>p\<in>set placeholder_tokens.
      \<not> sublist p (cesium_token example_self) \<and> \<not> sublist p (visualization_type example_self)"
    using no_delimiter_no_token [OF c(1)] no_delimiter_no_token [OF c(2)]
    by (simp add: placeholder_tokens_def)
  from no_placeholder_left [OF r hyp] example_name c(1,2)
  have "\<not> sublist ''$accessToken'' html \<and> \<not> sublist ''$startTime'' html
        \<and> \<not> sublist ''$stopTime'' html \<and> \<not> sublist ''$visualType'' html
        \<and> sublist ''token'' html \<and> sublist ''color'' html
        \<and> CHR ''$'' \<notin> set html"
    by (simp add: c(3,4))
  moreover from hyp have "list_all
     (\<lambda>p. \<not> sublist p (cesium_token example_self)
        \<and> \<not> sublist p (visualization_type example_self))
     placeholder_tokens"
    by (simp add: list_all_iff)
  ultimately show ?thesis using r by blast
qed

subsection \<open>Trajectories of at most one episode\<close>

text \<open>
  Claim C9, as stated: for every trajectory of length 0 or 1 and every valid
  configuration with at least one episode and one step, \<^verbatim>\<open>render\<close> writes both files.
  This fails where the timeline leaves the range of pandas' 64-bit nanosecond
  counts: with the empty trajectory, three episodes of two steps and a step of
  \<open>10^13\<close> seconds the call ends with the exception of \<^verbatim>\<open>pd.Timedelta\<close> and writes
  nothing.
\<close>

theorem short_trajectory_counterexample:
  "length ([] :: int trajectory) \<le> 1
   \<and> simulation_metadata (config long_step_self) = Some example_metadata
   \<and> name example_metadata = Some ''sim''
   \<and> num_episodes example_metadata = Some 3
   \<and> num_steps_per_episode example_metadata = Some 2
   \<and> 0 < step_time long_step_self
   \<and> render str_int long_step_self example_now [] Map.empty
        = (Some OutOfBoundsTimedelta, Map.empty)"
proof -
  have t: "timeline long_step_self example_now = Inl OutOfBoundsTimedelta"
    by (simp add: timeline_def total_steps_def metadata_entry_def subscript_def long_step_self_def
        example_defs example_now_def gen_timestamps_def py_range_def Timedelta_def
        timestamp_add_def in_bounds_def upt_rec)
  have n: "metadata_entry (config long_step_self) name ''name'' = Inr ''sim''"
    by (simp add: metadata_entry_def subscript_def long_step_self_def example_defs)
  have "render str_int long_step_self example_now [] Map.empty
      = (Some OutOfBoundsTimedelta, Map.empty)"
    by (simp add: render_def t n empty_extraction)
  then show ?thesis by (simp add: long_step_self_def example_defs)
qed

text \<open>
  Claim C9, amended: for a trajectory of length 0 or 1, a configuration with a name,
  at least one episode and at least one step per episode, and a timeline within the
  bounds of a 64-bit count of nanoseconds, \<^verbatim>\<open>render\<close> processes no episode and returns
  normally; the GeoJSON file it has written holds the empty JSON array \<^verbatim>\<open>[]\<close>; and it
  has written the viewer document with the placeholders replaced: the access token,
  the visualisation type and the start time stand in it, and no \<^verbatim>\<open>$\<close> is left when the
  access token and the visualisation type have none.
\<close>

theorem short_trajectory:
  assumes "length st \<le> 1"
    and "simulation_metadata (config self) = Some md" and "name md = Some sim_name"
    and "num_episodes md = Some E" and "num_steps_per_episode md = Some S"
    and "1 \<le> E" and "1 \<le> S"
    and "\<forall>i. 0 \<le> i \<and> i < E * S \<longrightarrow>
           \<bar>i * step_time self * 1000000000\<bar> < 2 ^ 63
           \<and> \<bar>now + i * step_time self * 1000000000\<bar> < 2 ^ 63"
  shows "extraction self st = Inr (Array [], [])
     \<and> (\<exists>html. render fmt self now st files
            = (None, files(sim_name @ ''.geojson'' \<mapsto> ''[]'', sim_name @ ''.html'' \<mapsto> html))
          \<and> sublist (cesium_token self) html \<and> sublist (visualization_type self) html
          \<and> sublist (isoformat now) html
          \<and> (CHR ''$'' \<notin> set (cesium_token self) \<and> CHR ''$'' \<notin> set (visualization_type self)
                \<longrightarrow> CHR ''$'' \<notin> set html))"
proof -
  let ?ts = "map (\<lambda>i. now + int i * step_time self * 1000000000) (py_range (E * S))"
  have e: "extraction self st = Inr (Array [], [])"
    using assms(1) by (rule empty_extraction)
  have n: "metadata_entry (config self) name ''name'' = Inr sim_name"
    using assms(2,3) by (simp add: metadata_entry_def subscript_def)
  have t: "timeline self now = Inr ?ts"
    using assms(2,4,5,8) by (rule timeline_Inr)
  have "1 * 1 \<le> E * S" using assms(6,7) by (intro mult_mono) simp_all
  then have pos: "0 < nat (E * S)" by simp
  then have ne: "?ts \<noteq> []" by (simp add: py_range_def)
  have first: "?ts ! 0 = now" using pos by (simp add: py_range_def)
  from viewer_document_succeeds [OF ne] obtain html where
    h: "viewer_document fmt self ?ts [] = Inr html" by blast
  have "render fmt self now st files
      = (None, files(sim_name @ ''.geojson'' \<mapsto> json_dump_indent fmt 0 (JArr []),
                     sim_name @ ''.html'' \<mapsto> html))"
    using n e t empty_geojsons h by (rule render_returns)
  then have r: "render fmt self now st files
      = (None, files(sim_name @ ''.geojson'' \<mapsto> ''[]'', sim_name @ ''.html'' \<mapsto> html))"
    by simp
  from viewer_document_contains [OF h] first
  have c: "sublist (cesium_token self) html" "sublist (visualization_type self) html"
    "sublist (isoformat now) html"
    by simp_all
  have d: "CHR ''$'' \<notin> set (cesium_token self) \<and> CHR ''$'' \<notin> set (visualization_type self)
      \<longrightarrow> CHR ''$'' \<notin> set html"
    using viewer_document_no_delimiter [OF h] by blast
  from e r c d show ?thesis by blast
qed

theorem short_trajectory_witness:
  "length (take 1 three_episodes) \<le> 1
   \<and> simulation_metadata (config example_self) = Some example_metadata
   \<and> name example_metadata = Some ''sim''
   \<and> num_episodes example_metadata = Some 3
   \<and> num_steps_per_episode example_metadata = Some 2
   \<and> extraction example_self (take 1 three_episodes) = Inr (Array [], [])
   \<and> (\<exists>html. render str_int example_self example_now (take 1 three_episodes) Map.empty
          = (None, [''sim.geojson'' \<mapsto> ''[]'', ''sim.html'' \<mapsto> html])
        \<and> sublist ''token'' html \<and> sublist ''color'' html
        \<and> sublist ''2026-11-04T07:25:00.123456+00:00'' html
        \<and> CHR ''$'' \<notin> set html)"
proof -
  have bounds: "\<forall>i. 0 \<le> i \<and> i < 3 * 2 \<longrightarrow>
           \<bar>i * step_time example_self * 1000000000\<bar> < 2 ^ 63
           \<and> \<bar>example_now + i * step_time example_self * 1000000000\<bar> < 2 ^ 63"
    by (auto simp: example_self_def example_now_def)
  have md: "simulation_metadata (config example_self) = Some example_metadata"
    "name example_metadata = Some ''sim''"
    "num_episodes example_metadata = Some 3" "num_steps_per_episode example_metadata = Some 2"
    by (simp_all add: example_defs)
  have len: "length (take 1 three_episodes) \<le> 1" by simp
  have c: "cesium_token example_self = ''token''" "visualization_type example_self = ''color''"
    by (simp_all add: example_self_def)
  have iso: "isoformat example_now = ''2026-11-04T07:25:00.123456+00:00''"
    using example_isoformat(1) by (simp add: example_now_def)
  from short_trajectory [OF len md _ _ bounds, of str_int Map.empty]
  have "extraction example_self (take 1 three_episodes) = Inr (Array [], [])
     \<and> (\<exists>html. render str_int example_self example_now (take 1 three_episodes) Map.empty
            = (None, [''sim.geojson'' \<mapsto> ''[]'', ''sim.html'' \<mapsto> html])
          \<and> sublist ''token'' html \<and> sublist ''color'' html
          \<and> sublist ''2026-11-04T07:25:00.123456+00:00'' html
          \<and> CHR ''$'' \<notin> set html)"
    by (simp add: c iso)
  with len md show ?thesis by blast
qed

end
